theory Spec2Isabelle
  imports Complex_Main
begin

section \<open>Python string operations used by the sources\<close>

text \<open>
  Strings are character lists. Case folding, whitespace and digits are modelled on the
  ASCII range, which is what the keyword tables of the sources are written in.
  Timestamps and confidences are Python floats; they are modelled as real numbers.
\<close>

definition ascii_uppercase :: string where
  "ascii_uppercase = ''ABCDEFGHIJKLMNOPQRSTUVWXYZ''"

definition ascii_lowercase :: string where
  "ascii_lowercase = ''abcdefghijklmnopqrstuvwxyz''"

definition lower_char :: "char \<Rightarrow> char" where
  "lower_char c =
     (case map_of (zip ascii_uppercase ascii_lowercase) c of Some d \<Rightarrow> d | None \<Rightarrow> c)"

definition upper_char :: "char \<Rightarrow> char" where
  "upper_char c =
     (case map_of (zip ascii_lowercase ascii_uppercase) c of Some d \<Rightarrow> d | None \<Rightarrow> c)"

definition lower :: "string \<Rightarrow> string" where
  "lower s = map lower_char s"

definition upper :: "string \<Rightarrow> string" where
  "upper s = map upper_char s"

definition is_space :: "char \<Rightarrow> bool" where
  "is_space c = (c \<in> set [CHR '' '', CHR 0x09, CHR 0x0A, CHR 0x0B, CHR 0x0C, CHR 0x0D,
                            CHR 0x1C, CHR 0x1D, CHR 0x1E, CHR 0x1F])"

definition strip :: "string \<Rightarrow> string" where
  "strip s = rev (dropWhile is_space (rev (dropWhile is_space s)))"

definition is_digit :: "char \<Rightarrow> bool" where
  "is_digit c = (c \<in> set ''0123456789'')"

fun startswith :: "string \<Rightarrow> string \<Rightarrow> bool" where
  "startswith s [] = True"
| "startswith [] (p # ps) = False"
| "startswith (c # cs) (p # ps) = (c = p \<and> startswith cs ps)"

text \<open>\<open>str_in sub s\<close> is Python's \<^verbatim>\<open>sub in s\<close> on strings.\<close>

fun str_in :: "string \<Rightarrow> string \<Rightarrow> bool" where
  "str_in sub [] = (sub = [])"
| "str_in sub (c # cs) = (startswith (c # cs) sub \<or> str_in sub cs)"

text \<open>\<open>any_in subs s\<close> is \<^verbatim>\<open>any(x in s for x in subs)\<close>.\<close>

definition any_in :: "string list \<Rightarrow> string \<Rightarrow> bool" where
  "any_in subs s = list_ex (\<lambda>x. str_in x s) subs"

text \<open>\<open>int(s)\<close> on a string of decimal digits, and \<open>str(n)\<close> on a natural number.\<close>

definition digit_value :: "char \<Rightarrow> nat" where
  "digit_value c = of_char c - 48"

definition int_of_digits :: "string \<Rightarrow> nat" where
  "int_of_digits s = foldl (\<lambda>n c. 10 * n + digit_value c) 0 s"

definition digit_char :: "nat \<Rightarrow> char" where
  "digit_char d = ''0123456789'' ! (d mod 10)"

fun str_nat :: "nat \<Rightarrow> string" where
  "str_nat n = (if n < 10 then [digit_char n] else str_nat (n div 10) @ [digit_char n])"

declare str_nat.simps [simp del]

text \<open>
  The exceptions of the modelled functions: a video that cannot be opened, a division
  by a frame rate or a sampling step of zero, a module that cannot be imported, and any
  other exception raised by the external commentator.
\<close>

datatype error = ValueError | ZeroDivisionError | ImportError | CommentatorError

section \<open>video\_commentary\_generator.py\<close>

text \<open>
  Modelled from the spec: the module \<^verbatim>\<open>buycommentary\<close> (\<^verbatim>\<open>Event\<close>,
  \<^verbatim>\<open>EventType\<close>, \<^verbatim>\<open>BuyPhaseCommentator\<close>) is imported by the source but is not
  part of it. An event carries the four fields the source passes to its constructor; the
  three event types are the three enumeration members the source names.
\<close>

datatype EventType = REQUESTING_WEAPON | WEAPON_OWNED | SHIELD_OWNED

record Event =
  e_timestamp :: real
  e_event_type :: EventType
  e_player :: string
  e_weapon :: string

text \<open>
  The weapon table of \<^verbatim>\<open>_classify_text_to_event\<close>, a dict literal: iteration over
  \<^verbatim>\<open>weapons.items()\<close> follows the order of declaration, so it is an association list.
\<close>

definition weapons :: "(string \<times> string list) list" where
  "weapons =
    [(''vandal'', [''vandal'', ''vandl'', ''vanda'']),
     (''phantom'', [''phantom'', ''fantom'', ''phant'']),
     (''operator'', [''operator'', ''op'', ''opertr'']),
     (''ghost'', [''ghost'', ''gost'', ''ghst'']),
     (''sheriff'', [''sheriff'', ''sherif'']),
     (''classic'', [''classic'', ''clasic'']),
     (''spectre'', [''spectre'', ''specter'']),
     (''judge'', [''judge'', ''juge'']),
     (''odin'', [''odin'', ''odn'']),
     (''ares'', [''ares'', ''are''])]"

text \<open>
  The loop \<^verbatim>\<open>for weapon, variants in weapons.items(): if any(variant in text ...)\<close>,
  which returns at the first weapon one of whose variants occurs in the text.
\<close>

fun find_weapon :: "(string \<times> string list) list \<Rightarrow> string \<Rightarrow> string option" where
  "find_weapon [] text = None"
| "find_weapon ((weapon, variants) # rest) text =
     (if any_in variants text then Some weapon else find_weapon rest text)"

definition classify_text_to_event :: "string \<Rightarrow> real \<Rightarrow> Event option" where
  "classify_text_to_event text0 timestamp =
     (let text = strip (lower text0);
          requested =
            (if any_in [''requesting'', ''request'', ''req''] text
             then find_weapon weapons text else None);
          owned =
            (if any_in [''owned'', ''ownd'', ''own'', ''equipped'', ''omned''] text
             then find_weapon weapons text else None)
      in case requested of
           Some weapon \<Rightarrow>
             Some \<lparr>e_timestamp = timestamp, e_event_type = REQUESTING_WEAPON,
                   e_player = ''Player'', e_weapon = weapon\<rparr>
         | None \<Rightarrow>
            (case owned of
               Some weapon \<Rightarrow>
                 Some \<lparr>e_timestamp = timestamp, e_event_type = WEAPON_OWNED,
                       e_player = ''Player'', e_weapon = weapon\<rparr>
             | None \<Rightarrow>
                 if any_in [''shield'', ''armor'', ''shields''] text
                    \<and> any_in [''owned'', ''equipped'', ''omned''] text
                 then Some \<lparr>e_timestamp = timestamp, e_event_type = SHIELD_OWNED,
                            e_player = ''Player'', e_weapon = ''shields''\<rparr>
                 else None))"

text \<open>
  One OCR result of a detected region. The text key may be absent
  (\<^verbatim>\<open>result.get('text', '')\<close>).
\<close>

record ocr_result =
  ocr_text :: "string option"
  ocr_bbox :: "int list"
  yolo_class :: string

text \<open>The loop of \<^verbatim>\<open>_extract_events_from_ocr\<close>, appending to \<^verbatim>\<open>events\<close>.\<close>

fun extract_events_loop :: "ocr_result list \<Rightarrow> real \<Rightarrow> Event list \<Rightarrow> Event list" where
  "extract_events_loop [] timestamp events = events"
| "extract_events_loop (result # rest) timestamp events =
     (let text = strip (lower (case ocr_text result of None \<Rightarrow> [] | Some t \<Rightarrow> t))
      in if text = [] then extract_events_loop rest timestamp events
         else (case classify_text_to_event text timestamp of
                 Some event \<Rightarrow> extract_events_loop rest timestamp (events @ [event])
               | None \<Rightarrow> extract_events_loop rest timestamp events))"

text \<open>
  \<^verbatim>\<open>ocr_results\<close> is \<open>None\<close> when the dict is empty or has no \<^verbatim>\<open>'results'\<close> key
  (what \<^verbatim>\<open>_process_ocr_on_detections\<close> returns without a processor or on an error).
\<close>

definition extract_events_from_ocr :: "ocr_result list option \<Rightarrow> real \<Rightarrow> Event list" where
  "extract_events_from_ocr ocr_results timestamp =
     (case ocr_results of
        None \<Rightarrow> []
      | Some results \<Rightarrow> extract_events_loop results timestamp [])"

text \<open>
  What the external commentator does on one call of \<^verbatim>\<open>generate_commentary(event)\<close>:
  it raises, returns nothing, or returns a commentary with a text. The commentator may
  keep state of its own, of type \<open>'c\<close>, so a call is a function
  \<open>'c \<Rightarrow> Event \<Rightarrow> 'c \<times> commentary_result\<close>.
\<close>

datatype commentary_result = GenRaises | GenNone | GenText string

record commentary_entry =
  ce_timestamp :: real
  ce_text :: string
  ce_events :: "Event list"

record frame_result =
  fr_timestamp :: real
  fr_buy_phase_detected :: bool
  fr_events :: "Event list"
  fr_commentary :: "string option"

record 'c VideoCommentaryGenerator =
  commentary_interval :: real
  commentator :: "'c option"
  last_commentary_time :: real
  all_commentary :: "commentary_entry list"
  frame_analysis :: "frame_result list"

text \<open>The state after \<^verbatim>\<open>__init__\<close>; the commentator is \<open>None\<close> when its set-up failed.\<close>

definition init_generator :: "real \<Rightarrow> 'c option \<Rightarrow> 'c VideoCommentaryGenerator" where
  "init_generator interval c =
     \<lparr>commentary_interval = interval, commentator = c, last_commentary_time = 0,
      all_commentary = [], frame_analysis = []\<rparr>"

definition generate_commentary_for_events ::
  "('c \<Rightarrow> Event \<Rightarrow> 'c \<times> commentary_result) \<Rightarrow> 'c VideoCommentaryGenerator \<Rightarrow>
   Event list \<Rightarrow> real \<Rightarrow> string option \<times> 'c VideoCommentaryGenerator" where
  "generate_commentary_for_events gen self events timestamp =
     (case (events, commentator self) of
        ([], _) \<Rightarrow> (None, self)
      | (_, None) \<Rightarrow> (None, self)
      | (event # _, Some c) \<Rightarrow>
          if timestamp - last_commentary_time self < commentary_interval self
          then (None, self)
          else (case gen c event of
                  (c', GenText text) \<Rightarrow>
                    (Some text, self\<lparr>commentator := Some c', last_commentary_time := timestamp\<rparr>)
                | (c', _) \<Rightarrow> (None, self\<lparr>commentator := Some c'\<rparr>)))"

text \<open>
  What perception yields for one extracted frame: nothing (no YOLO processor, no
  prediction, or an error), or the OCR results of the detected regions.
\<close>

datatype perception = NoDetection | Detected "ocr_result list option"

record video_frame =
  vf_timestamp :: real
  vf_perception :: perception

definition process_frame :: "video_frame \<Rightarrow> frame_result" where
  "process_frame frame =
     (case vf_perception frame of
        NoDetection \<Rightarrow>
          \<lparr>fr_timestamp = vf_timestamp frame, fr_buy_phase_detected = False,
           fr_events = [], fr_commentary = None\<rparr>
      | Detected ocr_results \<Rightarrow>
          \<lparr>fr_timestamp = vf_timestamp frame, fr_buy_phase_detected = True,
           fr_events = extract_events_from_ocr ocr_results (vf_timestamp frame),
           fr_commentary = None\<rparr>)"

text \<open>One iteration of the loop of \<^verbatim>\<open>process_video\<close>, and the loop.\<close>

definition process_video_step ::
  "('c \<Rightarrow> Event \<Rightarrow> 'c \<times> commentary_result) \<Rightarrow> 'c VideoCommentaryGenerator \<Rightarrow>
   video_frame \<Rightarrow> 'c VideoCommentaryGenerator" where
  "process_video_step gen self frame =
     (let timestamp = vf_timestamp frame;
          frame_result = process_frame frame
      in if fr_events frame_result = []
         then self\<lparr>frame_analysis := frame_analysis self @ [frame_result]\<rparr>
         else (case generate_commentary_for_events gen self (fr_events frame_result) timestamp of
                 (commentary, self') \<Rightarrow>
                   (let frame_result' = frame_result\<lparr>fr_commentary := commentary\<rparr>;
                        self'' =
                          (case commentary of
                             None \<Rightarrow> self'
                           | Some text \<Rightarrow>
                               if text = [] then self'
                               else self'\<lparr>all_commentary := all_commentary self' @
                                      [\<lparr>ce_timestamp = timestamp, ce_text = text,
                                        ce_events = fr_events frame_result\<rparr>]\<rparr>)
                    in self''\<lparr>frame_analysis := frame_analysis self'' @ [frame_result']\<rparr>)))"

definition process_video ::
  "('c \<Rightarrow> Event \<Rightarrow> 'c \<times> commentary_result) \<Rightarrow> 'c VideoCommentaryGenerator \<Rightarrow>
   video_frame list \<Rightarrow> 'c VideoCommentaryGenerator" where
  "process_video gen self frames = foldl (process_video_step gen) self frames"

section \<open>enhanced\_gameplay\_commentator.py\<close>

subsection \<open>Regular expressions of the analyzer\<close>

text \<open>
  \<^verbatim>\<open>re.search(r'\d+:\d+', text)\<close> succeeds exactly when a digit, a colon and a digit
  stand next to each other somewhere in the text.
\<close>

fun has_countdown :: "string \<Rightarrow> bool" where
  "has_countdown (a # b # c # rest) =
     ((is_digit a \<and> b = CHR '':'' \<and> is_digit c) \<or> has_countdown (b # c # rest))"
| "has_countdown _ = False"

text \<open>
  \<^verbatim>\<open>re.search(r'(\d+)-(\d+)', text)\<close>: the leftmost position from which a greedy run
  of digits, a hyphen and a second greedy run of digits can be read; the two groups.
\<close>

definition match_score_at :: "string \<Rightarrow> (string \<times> string) option" where
  "match_score_at s =
     (let group1 = takeWhile is_digit s
      in if group1 = [] then None
         else (case dropWhile is_digit s of
                 [] \<Rightarrow> None
               | c # after \<Rightarrow>
                   (let group2 = takeWhile is_digit after
                    in if c = CHR ''-'' \<and> group2 \<noteq> [] then Some (group1, group2) else None)))"

fun search_score :: "string \<Rightarrow> (string \<times> string) option" where
  "search_score [] = None"
| "search_score (c # cs) =
     (case match_score_at (c # cs) of
        Some groups \<Rightarrow> Some groups
      | None \<Rightarrow> search_score cs)"

subsection \<open>GameplayAnalyzer\<close>

record GameplayEvent =
  timestamp :: real
  event_type :: string
  description :: string
  importance :: int
  players_involved :: "string list"
  location :: "string option"

text \<open>One OCR reading of a screen region: the recognised text and its confidence.\<close>

type_synonym ocr_reading = "string \<times> real"

definition analyzer_weapons :: "string list" where
  "analyzer_weapons =
    [''VANDAL'', ''PHANTOM'', ''OPERATOR'', ''SHERIFF'', ''GHOST'', ''CLASSIC'',
     ''ARES'', ''ODIN'', ''SPECTRE'', ''JUDGE'', ''BUCKY'', ''SHORTY'',
     ''BULLDOG'', ''GUARDIAN'', ''MARSHAL'', ''FRENZY'', ''STINGER'']"

fun parse_kill_weapon :: "string list \<Rightarrow> string \<Rightarrow> string option" where
  "parse_kill_weapon [] text = None"
| "parse_kill_weapon (weapon # rest) text =
     (if str_in (lower weapon) (lower text) then Some weapon else parse_kill_weapon rest text)"

definition parse_kill_text :: "string \<Rightarrow> real \<Rightarrow> GameplayEvent option" where
  "parse_kill_text text ts =
     (case parse_kill_weapon analyzer_weapons text of
        Some weapon \<Rightarrow>
          Some \<lparr>timestamp = ts, event_type = ''elimination'',
                description = ''Elimination with '' @ weapon @ '' - the fragging continues!'',
                importance = 4, players_involved = [''Unknown Player''],
                location = Some ''Unknown''\<rparr>
      | None \<Rightarrow>
          if str_in ''headshot'' (lower text) \<or> str_in ''hs'' (lower text)
          then Some \<lparr>timestamp = ts, event_type = ''headshot'',
                     description = ''Headshot elimination - what a shot!'',
                     importance = 5, players_involved = [''Unknown Player''],
                     location = None\<rparr>
          else None)"

text \<open>
  In the detectors below the readings are \<open>None\<close> when the OCR library cannot be
  imported (the \<^verbatim>\<open>except ImportError\<close> branches).
\<close>

fun kill_feed_loop :: "ocr_reading list \<Rightarrow> real \<Rightarrow> GameplayEvent list" where
  "kill_feed_loop [] ts = []"
| "kill_feed_loop ((text, confidence) # rest) ts =
     (if confidence > 0.5
      then (case parse_kill_text text ts of
              Some kill_pattern \<Rightarrow> kill_pattern # kill_feed_loop rest ts
            | None \<Rightarrow> kill_feed_loop rest ts)
      else kill_feed_loop rest ts)"

definition detect_kill_feed_events :: "ocr_reading list option \<Rightarrow> real \<Rightarrow> GameplayEvent list" where
  "detect_kill_feed_events readings ts =
     (case readings of None \<Rightarrow> [] | Some results \<Rightarrow> kill_feed_loop results ts)"

fun round_phase_loop :: "ocr_reading list \<Rightarrow> string" where
  "round_phase_loop [] = ''ACTION_PHASE''"
| "round_phase_loop ((text, confidence) # rest) =
     (if confidence > 0.6 \<and> has_countdown text
      then (if any_in [''BUY'', ''PREP''] (upper text) then ''PREP_PHASE'' else ''ACTION_PHASE'')
      else round_phase_loop rest)"

definition detect_round_phase :: "ocr_reading list option \<Rightarrow> string" where
  "detect_round_phase readings =
     (case readings of None \<Rightarrow> ''ACTION_PHASE'' | Some results \<Rightarrow> round_phase_loop results)"

definition detect_ability_usage :: "nat \<Rightarrow> real \<Rightarrow> GameplayEvent list" where
  "detect_ability_usage gray_mask_sum ts =
     (if gray_mask_sum > 1000
      then [\<lparr>timestamp = ts, event_type = ''ability_used'',
             description = ''Ability usage detected - tactical play in progress'',
             importance = 3, players_involved = [''Unknown Player''], location = None\<rparr>]
      else [])"

fun tactical_loop :: "ocr_reading list \<Rightarrow> real \<Rightarrow> GameplayEvent list" where
  "tactical_loop [] ts = []"
| "tactical_loop ((text, confidence) # rest) ts =
     (let text_upper = upper text
      in if confidence > 0.6
         then (if str_in ''PLANT'' text_upper \<or> str_in ''SPIKE'' text_upper
               then \<lparr>timestamp = ts, event_type = ''spike_plant'',
                     description = ''Spike plant detected - critical moment!'',
                     importance = 5, players_involved = [''Attacker''], location = None\<rparr>
                    # tactical_loop rest ts
               else if str_in ''DEFUS'' text_upper
               then \<lparr>timestamp = ts, event_type = ''spike_defuse'',
                     description = ''Defuse attempt detected - clutch situation!'',
                     importance = 5, players_involved = [''Defender''], location = None\<rparr>
                    # tactical_loop rest ts
               else tactical_loop rest ts)
         else tactical_loop rest ts)"

definition detect_tactical_events :: "ocr_reading list option \<Rightarrow> real \<Rightarrow> GameplayEvent list" where
  "detect_tactical_events readings ts =
     (case readings of None \<Rightarrow> [] | Some results \<Rightarrow> tactical_loop results ts)"

record score_info =
  round_number :: nat
  team1_score :: nat
  team2_score :: nat

definition initial_score_info :: score_info where
  "initial_score_info = \<lparr>round_number = 1, team1_score = 0, team2_score = 0\<rparr>"

fun scoreboard_loop :: "ocr_reading list \<Rightarrow> score_info \<Rightarrow> score_info" where
  "scoreboard_loop [] info = info"
| "scoreboard_loop ((text, confidence) # rest) info =
     (if confidence > 0.7
      then (case search_score text of
              Some (group1, group2) \<Rightarrow>
                (let info1 = info\<lparr>team1_score := int_of_digits group1\<rparr>;
                     info2 = info1\<lparr>team2_score := int_of_digits group2\<rparr>;
                     info3 = info2\<lparr>round_number := team1_score info2 + team2_score info2 + 1\<rparr>
                 in scoreboard_loop rest info3)
            | None \<Rightarrow> scoreboard_loop rest info)
      else scoreboard_loop rest info)"

definition analyze_scoreboard :: "ocr_reading list option \<Rightarrow> score_info" where
  "analyze_scoreboard readings =
     (case readings of
        None \<Rightarrow> initial_score_info
      | Some results \<Rightarrow> scoreboard_loop results initial_score_info)"

subsection \<open>EnhancedGameplayCommentator\<close>

text \<open>
  The \<^verbatim>\<open>'audio_file'\<close> entry of a segment dictionary: the key is absent, holds
  \<^verbatim>\<open>None\<close>, or holds the path of the audio file. Every reader in the sources goes
  through \<^verbatim>\<open>segment.get('audio_file')\<close>, which is \<open>get_audio_file\<close>.
\<close>

datatype audio_ref = NoKey | Null | AudioPath string


record segment =
  seg_timestamp :: real
  seg_text :: string
  seg_event_type :: string
  seg_importance :: int
  seg_style :: string
  seg_audio_file :: audio_ref

definition commentary_templates :: "(string \<times> string list) list" where
  "commentary_templates =
    [(''elimination'',
       [''Another frag on the board! The aggression is paying off!'',
        ''That's a clean elimination - the momentum is building!'',
        ''Down goes another one! The team is executing perfectly!'',
        ''Beautiful frag - the mechanical skill on display here!'',
        ''That elimination could be the game changer they needed!'']),
     (''headshot'',
       [''HEADSHOT! What an incredible shot - pure precision!'',
        ''One tap headshot - that's how you do it!'',
        ''Absolutely demolished with a headshot - incredible aim!'',
        ''Headshot elimination - the crowd goes wild!'',
        ''Perfect crosshair placement leads to another headshot!'']),
     (''spike_plant'',
       [''Spike is down! The pressure is on the defenders now!'',
        ''Plant secured - now it's all about the retake!'',
        ''Spike planted - this round just became even more intense!'',
        ''The spike is down - defenders need to move fast!'',
        ''Plant successful - the attackers are in control now!'']),
     (''spike_defuse'',
       [''Defuse attempt - this is clutch time!'',
        ''They're going for the defuse - can they get it?'',
        ''Defuse in progress - the tension is unbearable!'',
        ''Clutch defuse attempt - everything on the line!'',
        ''Going for the defuse - this could save the round!'']),
     (''ability_used'',
       [''Tactical ability deployed - the strategy unfolds!'',
        ''Utility usage at the perfect moment!'',
        ''Ability activation - the team coordination is beautiful!'',
        ''Perfect timing on that ability usage!'',
        ''Tactical play in motion - the setup is developing!'']),
     (''round_start'',
       [''Round begins - here we go!'',
        ''New round starting - the intensity builds!'',
        ''Fresh round underway - anything can happen!'',
        ''Round is live - let's see what they've got!'',
        ''Another round begins - the competition heats up!'']),
     (''economic_context'',
       [''Economy plays a crucial role in this round setup!'',
        ''The economic decisions from last round show here!'',
        ''Team economy looking strong for this engagement!'',
        ''Economic management will be key this round!'',
        ''The buy decisions are about to pay dividends!''])]"

definition default_templates :: "string list" where
  "default_templates =
    [''Interesting play development here!'',
     ''The action continues to unfold!'',
     ''Strategic gameplay in progress!'']"

definition general_comments :: "string list" where
  "general_comments =
    [''The tactical positioning continues to evolve!'',
     ''Both teams showing excellent coordination!'',
     ''The mechanical skill on display is impressive!'',
     ''Strategic depth being showcased in this engagement!'',
     ''The game sense from both sides is remarkable!'',
     ''Positioning and timing will be crucial here!'',
     ''The team coordination is really paying off!'',
     ''Individual skill combined with team strategy!'']"

text \<open>
  \<^verbatim>\<open>random.choice\<close>: the random source is a parameter \<open>rnd\<close>, whose \<open>n\<close>-th draw
  selects the index; the state counts the draws made so far. Every list the sources
  choose from is a non-empty literal.
\<close>

definition random_choice :: "(nat \<Rightarrow> nat) \<Rightarrow> nat \<Rightarrow> 'a list \<Rightarrow> 'a" where
  "random_choice rnd n xs = xs ! (rnd n mod length xs)"

text \<open>
  The mutable state of an analysis run: the attributes \<^verbatim>\<open>events_detected\<close> and
  \<^verbatim>\<open>commentary_segments\<close> of the commentator, the loop variables
  \<^verbatim>\<open>last_round_phase\<close> and \<^verbatim>\<open>last_score_info\<close> of
  \<^verbatim>\<open>analyze_gameplay_video\<close>, and the number of random draws.
\<close>

record commentator_state =
  last_round_phase :: string
  last_score_info :: score_info
  events_detected :: "GameplayEvent list"
  commentary_segments :: "segment list"
  draws :: nat

definition initial_state :: commentator_state where
  "initial_state =
     \<lparr>last_round_phase = ''ACTION_PHASE'', last_score_info = initial_score_info,
      events_detected = [], commentary_segments = [], draws = 0\<rparr>"

definition generate_event_commentary ::
  "(nat \<Rightarrow> nat) \<Rightarrow> GameplayEvent \<Rightarrow> commentator_state \<Rightarrow> commentator_state" where
  "generate_event_commentary rnd event st =
     (let templates =
            (case map_of commentary_templates (event_type event) of
               Some ts \<Rightarrow> ts | None \<Rightarrow> default_templates);
          chosen = random_choice rnd (draws st) templates;
          commentary_text =
            (case location event of
               None \<Rightarrow> chosen
             | Some loc \<Rightarrow> if loc = [] then chosen else chosen @ '' Position: '' @ loc @ ''.'')
      in st\<lparr>commentary_segments := commentary_segments st @
               [\<lparr>seg_timestamp = timestamp event, seg_text = commentary_text,
                 seg_event_type = event_type event, seg_importance = importance event,
                 seg_style = (if importance event \<ge> 4 then ''excitement'' else ''play_by_play''),
                 seg_audio_file = NoKey\<rparr>],
             draws := Suc (draws st)\<rparr>)"

text \<open>
  The loop \<^verbatim>\<open>for event in events_this_frame: if event.importance >= 3: ...\<close>.
\<close>

fun comment_on_events ::
  "(nat \<Rightarrow> nat) \<Rightarrow> GameplayEvent list \<Rightarrow> commentator_state \<Rightarrow> commentator_state" where
  "comment_on_events rnd [] st = st"
| "comment_on_events rnd (event # rest) st =
     (if importance event \<ge> 3
      then comment_on_events rnd rest (generate_event_commentary rnd event st)
      else comment_on_events rnd rest st)"

text \<open>What perception yields for one sampled frame of the gameplay video.\<close>

record gameplay_frame =
  timer_readings :: "ocr_reading list option"
  scoreboard_readings :: "ocr_reading list option"
  kill_feed_readings :: "ocr_reading list option"
  gray_mask_sum :: nat
  center_readings :: "ocr_reading list option"

definition phase_events :: "string \<Rightarrow> string \<Rightarrow> real \<Rightarrow> GameplayEvent list" where
  "phase_events current_phase last_phase ts =
     (if current_phase \<noteq> last_phase
      then (if current_phase = ''ACTION_PHASE'' \<and> last_phase \<noteq> ''ACTION_PHASE''
            then [\<lparr>timestamp = ts, event_type = ''round_start'',
                   description = ''Round action phase begins'',
                   importance = 3, players_involved = [], location = None\<rparr>]
            else [])
      else [])"

definition score_events :: "score_info \<Rightarrow> score_info \<Rightarrow> real \<Rightarrow> GameplayEvent list" where
  "score_events info last_info ts =
     (if round_number info \<noteq> round_number last_info
      then [\<lparr>timestamp = ts, event_type = ''economic_context'',
             description = ''Round '' @ str_nat (round_number info) @ '' - Score: '' @
               str_nat (team1_score info) @ ''-'' @ str_nat (team2_score info),
             importance = 2, players_involved = [], location = None\<rparr>]
      else [])"

text \<open>The body of the loop of \<^verbatim>\<open>analyze_gameplay_video\<close> for one frame.\<close>

definition analyze_frame ::
  "(nat \<Rightarrow> nat) \<Rightarrow> real \<Rightarrow> gameplay_frame \<Rightarrow> commentator_state \<Rightarrow> commentator_state" where
  "analyze_frame rnd ts frame st =
     (let current_phase = detect_round_phase (timer_readings frame);
          events1 = phase_events current_phase (last_round_phase st) ts;
          phase' = (if current_phase \<noteq> last_round_phase st then current_phase
                    else last_round_phase st);
          info = analyze_scoreboard (scoreboard_readings frame);
          events2 = score_events info (last_score_info st) ts;
          info' = (if round_number info \<noteq> round_number (last_score_info st) then info
                   else last_score_info st);
          kill_events = detect_kill_feed_events (kill_feed_readings frame) ts;
          ability_events = detect_ability_usage (gray_mask_sum frame) ts;
          tactical_events = detect_tactical_events (center_readings frame) ts;
          events_this_frame = events1 @ events2 @ kill_events @ ability_events @ tactical_events;
          st' = st\<lparr>last_round_phase := phase', last_score_info := info',
                   events_detected := events_detected st @ events_this_frame\<rparr>
      in comment_on_events rnd events_this_frame st')"



text \<open>
  \<^verbatim>\<open>_add_general_commentary\<close>: \<^verbatim>\<open>current_time\<close> runs through 0, 12, 24, ... while it
  is below the duration.
\<close>

definition has_nearby_commentary :: "segment list \<Rightarrow> int \<Rightarrow> bool" where
  "has_nearby_commentary segs current_time =
     list_ex (\<lambda>seg. \<bar>seg_timestamp seg - real_of_int current_time\<bar> < 5) segs"

definition general_segment :: "(nat \<Rightarrow> nat) \<Rightarrow> nat \<Rightarrow> int \<Rightarrow> segment" where
  "general_segment rnd n current_time =
     \<lparr>seg_timestamp = real_of_int current_time,
      seg_text = random_choice rnd n general_comments,
      seg_event_type = ''general'', seg_importance = 2, seg_style = ''analysis'',
      seg_audio_file = NoKey\<rparr>"

function add_general_loop ::
  "(nat \<Rightarrow> nat) \<Rightarrow> real \<Rightarrow> int \<Rightarrow> commentator_state \<Rightarrow> commentator_state" where
  "add_general_loop rnd duration current_time st =
     (if real_of_int current_time < duration
      then add_general_loop rnd duration (current_time + 12)
             (if \<not> has_nearby_commentary (commentary_segments st) current_time
              then st\<lparr>commentary_segments := commentary_segments st @
                         [general_segment rnd (draws st) current_time],
                       draws := Suc (draws st)\<rparr>
              else st)
      else st)"
  by pat_completeness auto
termination
  by (relation "measure (\<lambda>(rnd, duration, current_time, st). nat (\<lceil>duration\<rceil> - current_time))")
     (auto simp: less_ceiling_iff)

declare add_general_loop.simps [simp del]

definition add_general_commentary ::
  "(nat \<Rightarrow> nat) \<Rightarrow> real \<Rightarrow> commentator_state \<Rightarrow> commentator_state" where
  "add_general_commentary rnd duration st = add_general_loop rnd duration 0 st"


text \<open>
  \<^verbatim>\<open>generate_voice_commentary\<close>. \<open>synth_ok i\<close> tells whether the body of the
  \<^verbatim>\<open>try\<close> block (synthesis call and writing the file) completes for the segment at
  index \<open>i\<close>; \<open>audio_name\<close> is the formatting of the file name from the timestamp.
  The result is the new state and the segment list handed to \<^verbatim>\<open>_save_results\<close>,
  \<open>None\<close> when voice synthesis is disabled and the function returns before saving.
\<close>

fun synthesize_segments ::
  "(nat \<Rightarrow> bool) \<Rightarrow> (real \<Rightarrow> string) \<Rightarrow> nat \<Rightarrow> segment list \<Rightarrow> segment list" where
  "synthesize_segments synth_ok audio_name i [] = []"
| "synthesize_segments synth_ok audio_name i (seg # rest) =
     (if synth_ok i
      then seg\<lparr>seg_audio_file := AudioPath (audio_name (seg_timestamp seg))\<rparr>
      else seg)
     # synthesize_segments synth_ok audio_name (Suc i) rest"

definition generate_voice_commentary ::
  "bool \<Rightarrow> (nat \<Rightarrow> bool) \<Rightarrow> (real \<Rightarrow> string) \<Rightarrow> commentator_state \<Rightarrow>
   commentator_state \<times> segment list option" where
  "generate_voice_commentary voice_enabled synth_ok audio_name st =
     (if \<not> voice_enabled then (st, None)
      else (let sorted_segments = sort_key seg_timestamp (commentary_segments st);
                segments = synthesize_segments synth_ok audio_name 0 sorted_segments
            in (st\<lparr>commentary_segments := segments\<rparr>, Some segments)))"

section \<open>voice\_commentary\_generator.py\<close>





section \<open>advanced\_video\_commentary.py\<close>

text \<open>\<^verbatim>\<open>int(x)\<close> on a float truncates towards zero.\<close>

definition py_int :: "real \<Rightarrow> int" where
  "py_int x = (if 0 \<le> x then \<lfloor>x\<rfloor> else \<lceil>x\<rceil>)"

text \<open>
  The video as the capture device presents it: whether it opens, its frame rate, the
  frame count it reports and the number of frames that can be read from it.
\<close>

record video_source =
  video_opened :: bool
  video_fps :: real
  video_frame_count :: nat
  video_frames_read :: nat

record frame_info =
  fi_path :: string
  fi_timestamp :: real
  fi_frame_number :: nat
  fi_extracted_index :: nat

record detection_item =
  det_class :: string
  det_confidence :: real
  det_bbox :: "int list"
  mock_ocr_text :: "string option"

record detection =
  d_timestamp :: real
  d_frame_path :: string
  d_detections :: "detection_item list"

record adv_segment =
  as_timestamp :: real
  as_text :: string
  as_caster :: string
  as_event_type :: string
  as_player :: string
  as_weapon :: string

text \<open>
  The loop of \<^verbatim>\<open>extract_frames_for_analysis\<close> over the frame numbers that can be
  read; \<open>frame_name\<close> is the formatting of the file name. The frames are appended to
  \<^verbatim>\<open>self.processed_frames\<close>, the list \<open>processed\<close>, which only the constructor
  empties.
\<close>

fun extract_frames_loop ::
  "real \<Rightarrow> int \<Rightarrow> (nat \<Rightarrow> real \<Rightarrow> string) \<Rightarrow> nat list \<Rightarrow> nat \<Rightarrow> frame_info list \<Rightarrow>
   frame_info list" where
  "extract_frames_loop fps frame_interval frame_name [] extracted_count processed = processed"
| "extract_frames_loop fps frame_interval frame_name (frame_count # rest) extracted_count processed =
     (if int frame_count mod frame_interval = 0
      then extract_frames_loop fps frame_interval frame_name rest (Suc extracted_count)
             (processed @
              [\<lparr>fi_path = frame_name extracted_count (real frame_count / fps),
                fi_timestamp = real frame_count / fps,
                fi_frame_number = frame_count,
                fi_extracted_index = extracted_count\<rparr>])
      else extract_frames_loop fps frame_interval frame_name rest extracted_count processed)"

definition extract_frames_for_analysis ::
  "(nat \<Rightarrow> real \<Rightarrow> string) \<Rightarrow> video_source \<Rightarrow> real \<Rightarrow> frame_info list \<Rightarrow>
   error + frame_info list" where
  "extract_frames_for_analysis frame_name video interval_seconds processed =
     (let frame_interval = py_int (video_fps video * interval_seconds)
      in if frame_interval = 0 \<and> video_frames_read video > 0 then Inl ZeroDivisionError
         else Inr (extract_frames_loop (video_fps video) frame_interval frame_name
                     [0 ..< video_frames_read video] 0 processed))"

definition generate_mock_ocr_text :: "nat \<Rightarrow> string" where
  "generate_mock_ocr_text index =
     (let weapons = [''Vandal'', ''Phantom'', ''Operator'', ''Ghost'', ''Sheriff'', ''Spectre'',
                     ''Judge''];
          statuses = [''OWNED'', ''REQUESTING'', ''EQUIPPED''];
          players = [''TenZ'', ''ScreaM'', ''Shroud'', ''Player1'', ''Player2'']
      in statuses ! (index mod length statuses) @ '' '' @
         weapons ! (index mod length weapons) @ '' '' @
         players ! (index mod length players))"

fun mock_detections_loop :: "nat \<Rightarrow> frame_info list \<Rightarrow> detection list" where
  "mock_detections_loop i [] = []"
| "mock_detections_loop i (frame_info # rest) =
     (if i mod 3 = 0
      then \<lparr>d_timestamp = fi_timestamp frame_info, d_frame_path = fi_path frame_info,
            d_detections =
              [\<lparr>det_class = ''event-box'',
                det_confidence = 0.85 + real (i mod 10) * 0.01,
                det_bbox = [100, 100, 200, 150],
                mock_ocr_text = Some (generate_mock_ocr_text i)\<rparr>]\<rparr>
           # mock_detections_loop (Suc i) rest
      else mock_detections_loop (Suc i) rest)"

definition generate_mock_detections :: "frame_info list \<Rightarrow> detection list" where
  "generate_mock_detections processed = mock_detections_loop 0 processed"

text \<open>
  \<^verbatim>\<open>run_buy_phase_detection\<close>. \<open>yolo\<close> is \<open>None\<close> when the model file or the processor
  module is missing; otherwise it gives the predictions for a frame, \<open>None\<close> when
  processing that frame fails or returns nothing.
\<close>

fun yolo_detections_loop ::
  "(frame_info \<Rightarrow> detection_item list option) \<Rightarrow> frame_info list \<Rightarrow> detection list" where
  "yolo_detections_loop processor [] = []"
| "yolo_detections_loop processor (frame_info # rest) =
     (case processor frame_info of
        None \<Rightarrow> yolo_detections_loop processor rest
      | Some predictions \<Rightarrow>
          if predictions = [] then yolo_detections_loop processor rest
          else \<lparr>d_timestamp = fi_timestamp frame_info, d_frame_path = fi_path frame_info,
                d_detections = predictions\<rparr> # yolo_detections_loop processor rest)"

definition run_buy_phase_detection ::
  "(frame_info \<Rightarrow> detection_item list option) option \<Rightarrow> frame_info list \<Rightarrow> detection list" where
  "run_buy_phase_detection yolo processed =
     (case yolo of
        None \<Rightarrow> generate_mock_detections processed
      | Some processor \<Rightarrow> yolo_detections_loop processor processed)"

fun extract_from_text_loop :: "string list \<Rightarrow> string \<Rightarrow> string option" where
  "extract_from_text_loop [] text_upper = None"
| "extract_from_text_loop (weapon # rest) text_upper =
     (if str_in (upper weapon) text_upper then Some weapon
      else extract_from_text_loop rest text_upper)"

definition extract_weapon_from_text :: "string \<Rightarrow> string" where
  "extract_weapon_from_text text =
     (case extract_from_text_loop
             [''Vandal'', ''Phantom'', ''Operator'', ''Ghost'', ''Sheriff'', ''Spectre'', ''Judge'']
             (upper text) of
        Some weapon \<Rightarrow> weapon
      | None \<Rightarrow> ''Unknown'')"

definition extract_player_from_text :: "string \<Rightarrow> string" where
  "extract_player_from_text text =
     (case find (\<lambda>player. str_in player text)
             [''TenZ'', ''ScreaM'', ''Shroud'', ''Player1'', ''Player2''] of
        Some player \<Rightarrow> player
      | None \<Rightarrow> ''Player'')"

text \<open>
  The templates of the backup commentary. The dash of two of them is outside ASCII and
  is written as the three bytes of its UTF-8 encoding.
\<close>

definition em_dash :: string where
  "em_dash = [CHR 0xE2, CHR 0x80, CHR 0x94]"

definition requesting_templates :: "string list" where
  "requesting_templates =
    [''{player} is calling for a {weapon}! The team needs to step up!'',
     ''Big request from {player} '' @ em_dash @ '' they want that {weapon}!'',
     ''{player} asking for backup! They need a {weapon} drop!'',
     ''Communication is key! {player} wants a {weapon} '' @ em_dash @ '' who's got their back?'',
     ''Strategic call from {player}! {weapon} request on the table!'']"

definition owned_templates :: "string list" where
  "owned_templates =
    [''{player} locks in the {weapon}! Let's go!'',
     ''Full commitment! {player} grabs the {weapon}!'',
     ''{player} locked and loaded with that {weapon}!'',
     ''Business time! {player} secures the {weapon}!'',
     ''Perfect buy from {player} '' @ em_dash @ '' {weapon} in hand!'']"

text \<open>\<^verbatim>\<open>template.format(player=..., weapon=...)\<close> on these templates.\<close>

fun format_template :: "string \<Rightarrow> string \<Rightarrow> string \<Rightarrow> string" where
  "format_template [] p w = []"
| "format_template (c # cs) p w =
     (if startswith (c # cs) ''{player}'' then p @ format_template (drop 7 cs) p w
      else if startswith (c # cs) ''{weapon}'' then w @ format_template (drop 7 cs) p w
      else c # format_template cs p w)"

text \<open>
  The attributes of the generator that its methods append to, and the number of random
  draws. The constructor sets both lists to the empty list; no method empties them.
\<close>

record AdvancedVideoCommentaryGenerator =
  adv_processed_frames :: "frame_info list"
  adv_commentary_segments :: "adv_segment list"
  adv_draws :: nat

definition adv_init :: AdvancedVideoCommentaryGenerator where
  "adv_init = \<lparr>adv_processed_frames = [], adv_commentary_segments = [], adv_draws = 0\<rparr>"

text \<open>The inner loop of \<^verbatim>\<open>_generate_backup_commentary\<close> over one frame's detections.\<close>

fun backup_items_loop ::
  "(nat \<Rightarrow> nat) \<Rightarrow> real \<Rightarrow> detection_item list \<Rightarrow> AdvancedVideoCommentaryGenerator \<Rightarrow>
   AdvancedVideoCommentaryGenerator" where
  "backup_items_loop rnd ts [] self = self"
| "backup_items_loop rnd ts (det # rest) self =
     (let mock_text = (case mock_ocr_text det of None \<Rightarrow> [] | Some t \<Rightarrow> t)
      in if str_in ''REQUESTING'' mock_text
         then (let weapon = extract_weapon_from_text mock_text;
                   player = extract_player_from_text mock_text;
                   template = random_choice rnd (adv_draws self) requesting_templates
               in backup_items_loop rnd ts rest
                    (self\<lparr>adv_commentary_segments := adv_commentary_segments self @
                            [\<lparr>as_timestamp = ts, as_text = format_template template player weapon,
                              as_caster = ''Hype'', as_event_type = ''requesting_weapon'',
                              as_player = player, as_weapon = weapon\<rparr>],
                          adv_draws := Suc (adv_draws self)\<rparr>))
         else if str_in ''OWNED'' mock_text
         then (let weapon = extract_weapon_from_text mock_text;
                   player = extract_player_from_text mock_text;
                   template = random_choice rnd (adv_draws self) owned_templates
               in backup_items_loop rnd ts rest
                    (self\<lparr>adv_commentary_segments := adv_commentary_segments self @
                            [\<lparr>as_timestamp = ts, as_text = format_template template player weapon,
                              as_caster = ''Hype'', as_event_type = ''weapon_owned'',
                              as_player = player, as_weapon = weapon\<rparr>],
                          adv_draws := Suc (adv_draws self)\<rparr>))
         else backup_items_loop rnd ts rest self)"

fun generate_backup_commentary ::
  "(nat \<Rightarrow> nat) \<Rightarrow> detection list \<Rightarrow> AdvancedVideoCommentaryGenerator \<Rightarrow>
   AdvancedVideoCommentaryGenerator" where
  "generate_backup_commentary rnd [] self = self"
| "generate_backup_commentary rnd (d # rest) self =
     generate_backup_commentary rnd rest
       (backup_items_loop rnd (d_timestamp d) (d_detections d) self)"

text \<open>
  \<^verbatim>\<open>_use_existing_commentary_system\<close>. A call of the external commentator raises an
  \<^verbatim>\<open>ImportError\<close>, raises another exception, returns nothing, or returns a
  commentary with a text and a caster. An exception ends the pass; the segments appended
  before it stay in the list, so the result is the exception, if any, with the state
  reached.
\<close>

datatype adv_commentary_result =
  AdvImportError | AdvRaises | AdvNone | AdvCommentary string string

fun existing_items_loop ::
  "('c \<Rightarrow> Event \<Rightarrow> 'c \<times> adv_commentary_result) \<Rightarrow> real \<Rightarrow> detection_item list \<Rightarrow>
   'c \<times> adv_segment list \<Rightarrow> error option \<times> 'c \<times> adv_segment list" where
  "existing_items_loop gen ts [] acc = (None, acc)"
| "existing_items_loop gen ts (det # rest) (c, segs) =
     (let mock_text = (case mock_ocr_text det of None \<Rightarrow> [] | Some t \<Rightarrow> t);
          weapon = extract_weapon_from_text mock_text;
          player = extract_player_from_text mock_text
      in if str_in ''REQUESTING'' mock_text
         then (case gen c \<lparr>e_timestamp = ts, e_event_type = REQUESTING_WEAPON,
                            e_player = player, e_weapon = weapon\<rparr> of
                 (c', AdvImportError) \<Rightarrow> (Some ImportError, c', segs)
               | (c', AdvRaises) \<Rightarrow> (Some CommentatorError, c', segs)
               | (c', AdvNone) \<Rightarrow> existing_items_loop gen ts rest (c', segs)
               | (c', AdvCommentary text caster) \<Rightarrow>
                   existing_items_loop gen ts rest
                     (c', segs @ [\<lparr>as_timestamp = ts, as_text = text, as_caster = caster,
                                    as_event_type = ''requesting_weapon'',
                                    as_player = player, as_weapon = weapon\<rparr>]))
         else if str_in ''OWNED'' mock_text
         then (case gen c \<lparr>e_timestamp = ts, e_event_type = WEAPON_OWNED,
                            e_player = player, e_weapon = weapon\<rparr> of
                 (c', AdvImportError) \<Rightarrow> (Some ImportError, c', segs)
               | (c', AdvRaises) \<Rightarrow> (Some CommentatorError, c', segs)
               | (c', AdvNone) \<Rightarrow> existing_items_loop gen ts rest (c', segs)
               | (c', AdvCommentary text caster) \<Rightarrow>
                   existing_items_loop gen ts rest
                     (c', segs @ [\<lparr>as_timestamp = ts, as_text = text, as_caster = caster,
                                    as_event_type = ''weapon_owned'',
                                    as_player = player, as_weapon = weapon\<rparr>]))
         else existing_items_loop gen ts rest (c, segs))"

fun use_existing_commentary_system ::
  "('c \<Rightarrow> Event \<Rightarrow> 'c \<times> adv_commentary_result) \<Rightarrow> detection list \<Rightarrow>
   'c \<times> adv_segment list \<Rightarrow> error option \<times> 'c \<times> adv_segment list" where
  "use_existing_commentary_system gen [] acc = (None, acc)"
| "use_existing_commentary_system gen (d # rest) acc =
     (case existing_items_loop gen (d_timestamp d) (d_detections d) acc of
        (Some e, acc') \<Rightarrow> (Some e, acc')
      | (None, acc') \<Rightarrow> use_existing_commentary_system gen rest acc')"

text \<open>
  \<^verbatim>\<open>generate_ai_commentary\<close>: \<open>existing\<close> is the external commentator with its
  initial state, \<open>None\<close> when its module cannot be imported. An \<^verbatim>\<open>ImportError\<close>
  of the pass with the commentator, at its import or in a later call, is caught, and the
  backup pass then runs over all detections, on top of the segments already appended;
  another exception escapes. The source writes the detections to a JSON file and reads
  them back; the model passes the list on.
\<close>

definition generate_ai_commentary ::
  "('c \<times> ('c \<Rightarrow> Event \<Rightarrow> 'c \<times> adv_commentary_result)) option \<Rightarrow> (nat \<Rightarrow> nat) \<Rightarrow>
   detection list \<Rightarrow> AdvancedVideoCommentaryGenerator \<Rightarrow>
   error option \<times> AdvancedVideoCommentaryGenerator" where
  "generate_ai_commentary existing rnd detections self =
     (if detections = [] then (None, self)
      else (case existing of
              None \<Rightarrow> (None, generate_backup_commentary rnd detections self)
            | Some (c, gen) \<Rightarrow>
                (case use_existing_commentary_system gen detections
                        (c, adv_commentary_segments self) of
                   (None, c', segs) \<Rightarrow> (None, self\<lparr>adv_commentary_segments := segs\<rparr>)
                 | (Some e, c', segs) \<Rightarrow>
                     if e = ImportError
                     then (None, generate_backup_commentary rnd detections
                                   (self\<lparr>adv_commentary_segments := segs\<rparr>))
                     else (Some e, self\<lparr>adv_commentary_segments := segs\<rparr>))))"

text \<open>
  \<^verbatim>\<open>process_video\<close> of the advanced generator on the generator \<open>self\<close>: the new state
  of the generator, and the segment list that \<^verbatim>\<open>save_final_results\<close> writes, which is
  the whole of \<^verbatim>\<open>self.commentary_segments\<close>, or \<open>None\<close> when an exception ends the
  run before anything is written.
\<close>

definition adv_process_video ::
  "('c \<times> ('c \<Rightarrow> Event \<Rightarrow> 'c \<times> adv_commentary_result)) option \<Rightarrow>
   (frame_info \<Rightarrow> detection_item list option) option \<Rightarrow> (nat \<Rightarrow> nat) \<Rightarrow>
   (nat \<Rightarrow> real \<Rightarrow> string) \<Rightarrow> video_source \<Rightarrow> AdvancedVideoCommentaryGenerator \<Rightarrow>
   AdvancedVideoCommentaryGenerator \<times> adv_segment list option" where
  "adv_process_video existing yolo rnd frame_name video self =
     (if \<not> video_opened video then (self, None)
      else if video_fps video = 0 then (self, None)
      else (case extract_frames_for_analysis frame_name video 1.0 (adv_processed_frames self) of
              Inl e \<Rightarrow> (self, None)
            | Inr processed \<Rightarrow>
                (case generate_ai_commentary existing rnd
                        (run_buy_phase_detection yolo processed)
                        (self\<lparr>adv_processed_frames := processed\<rparr>) of
                   (Some e, self') \<Rightarrow> (self', None)
                 | (None, self') \<Rightarrow> (self', Some (adv_commentary_segments self')))))"

text \<open>
  The invariant of the segment list while commentary is generated frame by frame: it is
  sorted by timestamp and no segment is later than the frame at hand.
\<close>

definition bounded_sorted :: "adv_segment list \<Rightarrow> real \<Rightarrow> bool" where
  "bounded_sorted segs t = (sorted (map as_timestamp segs) \<and> list_all (\<lambda>s. as_timestamp s \<le> t) segs)"


section \<open>Properties\<close>

subsection \<open>The scoreboard\<close>








subsection \<open>Weapon aliases\<close>

lemma find_weapon_first:
  "\<not> list_ex (\<lambda>(w', vs'). any_in vs' text) pre \<Longrightarrow> any_in vs text \<Longrightarrow>
   find_weapon (pre @ (w, vs) # post) text = Some w"
  by (induction pre) auto

lemma find_weapon_vandal:
  "any_in [''vandal'', ''vandl'', ''vanda''] text \<Longrightarrow> find_weapon weapons text = Some ''vandal''"
  by (simp add: weapons_def)

lemma classify_requesting:
  "any_in [''requesting'', ''request'', ''req''] (strip (lower text)) \<Longrightarrow>
   find_weapon weapons (strip (lower text)) = Some w \<Longrightarrow>
   classify_text_to_event text ts =
     Some \<lparr>e_timestamp = ts, e_event_type = REQUESTING_WEAPON, e_player = ''Player'',
           e_weapon = w\<rparr>"
  by (simp add: classify_text_to_event_def Let_def)

lemma classify_owned:
  "\<not> any_in [''requesting'', ''request'', ''req''] (strip (lower text)) \<Longrightarrow>
   any_in [''owned'', ''ownd'', ''own'', ''equipped'', ''omned''] (strip (lower text)) \<Longrightarrow>
   find_weapon weapons (strip (lower text)) = Some w \<Longrightarrow>
   classify_text_to_event text ts =
     Some \<lparr>e_timestamp = ts, e_event_type = WEAPON_OWNED, e_player = ''Player'',
           e_weapon = w\<rparr>"
  by (simp add: classify_text_to_event_def Let_def)

lemma classify_no_keyword:
  "\<not> any_in [''requesting'', ''request'', ''req''] (strip (lower text)) \<Longrightarrow>
   \<not> any_in [''owned'', ''ownd'', ''own'', ''equipped'', ''omned''] (strip (lower text)) \<Longrightarrow>
   classify_text_to_event text ts = None"
  by (auto simp: classify_text_to_event_def Let_def any_in_def)

lemma classify_requesting_vandal_ghost:
  "classify_text_to_event ''REQUESTING Vandal Ghost'' ts =
     Some \<lparr>e_timestamp = ts, e_event_type = REQUESTING_WEAPON, e_player = ''Player'',
           e_weapon = ''vandal''\<rparr>"
  by (simp add: classify_text_to_event_def lower_def lower_char_def ascii_uppercase_def
      ascii_lowercase_def strip_def is_space_def any_in_def weapons_def)

text \<open>
  C8 (as the code has it). The weapon of a text is looked up in the alias table only
  when the text, lower-cased and stripped, has a request keyword or an ownership keyword.
  With a request keyword the event is a weapon request, and without one but with an
  ownership keyword it is a weapon ownership, for the first declared weapon one of whose
  aliases occurs in the text: the table is split at that weapon and no weapon declared
  before it has an alias in the text. So a request whose text contains \<open>vandal\<close>,
  \<open>vandl\<close> or \<open>vanda\<close> is a request for the vandal, and so is the request
  \<open>REQUESTING Vandal Ghost\<close>. A text with neither kind of keyword gives no event.
\<close>

theorem weapon_alias_under_keyword:
  "(any_in [''requesting'', ''request'', ''req''] (strip (lower text))
      \<and> weapons = pre @ (w, vs) # post \<and> any_in vs (strip (lower text))
      \<and> \<not> list_ex (\<lambda>(w', vs'). any_in vs' (strip (lower text))) pre \<longrightarrow>
      classify_text_to_event text ts =
        Some \<lparr>e_timestamp = ts, e_event_type = REQUESTING_WEAPON, e_player = ''Player'',
              e_weapon = w\<rparr>)
   \<and> (\<not> any_in [''requesting'', ''request'', ''req''] (strip (lower text))
      \<and> any_in [''owned'', ''ownd'', ''own'', ''equipped'', ''omned''] (strip (lower text))
      \<and> weapons = pre @ (w, vs) # post \<and> any_in vs (strip (lower text))
      \<and> \<not> list_ex (\<lambda>(w', vs'). any_in vs' (strip (lower text))) pre \<longrightarrow>
      classify_text_to_event text ts =
        Some \<lparr>e_timestamp = ts, e_event_type = WEAPON_OWNED, e_player = ''Player'',
              e_weapon = w\<rparr>)
   \<and> (any_in [''requesting'', ''request'', ''req''] (strip (lower text))
      \<and> any_in [''vandal'', ''vandl'', ''vanda''] (strip (lower text)) \<longrightarrow>
      classify_text_to_event text ts =
        Some \<lparr>e_timestamp = ts, e_event_type = REQUESTING_WEAPON, e_player = ''Player'',
              e_weapon = ''vandal''\<rparr>)
   \<and> (\<not> any_in [''requesting'', ''request'', ''req''] (strip (lower text))
      \<and> \<not> any_in [''owned'', ''ownd'', ''own'', ''equipped'', ''omned''] (strip (lower text)) \<longrightarrow>
      classify_text_to_event text ts = None)
   \<and> classify_text_to_event ''REQUESTING Vandal Ghost'' ts =
       Some \<lparr>e_timestamp = ts, e_event_type = REQUESTING_WEAPON, e_player = ''Player'',
             e_weapon = ''vandal''\<rparr>"
proof (intro conjI impI)
  assume a: "any_in [''requesting'', ''request'', ''req''] (strip (lower text))
      \<and> weapons = pre @ (w, vs) # post \<and> any_in vs (strip (lower text))
      \<and> \<not> list_ex (\<lambda>(w', vs'). any_in vs' (strip (lower text))) pre"
  then have w: "weapons = pre @ (w, vs) # post"
    and v: "any_in vs (strip (lower text))"
    and n: "\<not> list_ex (\<lambda>(w', vs'). any_in vs' (strip (lower text))) pre"
    by blast+
  have "find_weapon weapons (strip (lower text)) = Some w"
    unfolding w by (rule find_weapon_first[OF n v])
  with a show "classify_text_to_event text ts =
        Some \<lparr>e_timestamp = ts, e_event_type = REQUESTING_WEAPON, e_player = ''Player'',
              e_weapon = w\<rparr>"
    by (simp add: classify_requesting)
next
  assume a: "\<not> any_in [''requesting'', ''request'', ''req''] (strip (lower text))
      \<and> any_in [''owned'', ''ownd'', ''own'', ''equipped'', ''omned''] (strip (lower text))
      \<and> weapons = pre @ (w, vs) # post \<and> any_in vs (strip (lower text))
      \<and> \<not> list_ex (\<lambda>(w', vs'). any_in vs' (strip (lower text))) pre"
  then have w: "weapons = pre @ (w, vs) # post"
    and v: "any_in vs (strip (lower text))"
    and n: "\<not> list_ex (\<lambda>(w', vs'). any_in vs' (strip (lower text))) pre"
    by blast+
  have "find_weapon weapons (strip (lower text)) = Some w"
    unfolding w by (rule find_weapon_first[OF n v])
  with a show "classify_text_to_event text ts =
        Some \<lparr>e_timestamp = ts, e_event_type = WEAPON_OWNED, e_player = ''Player'',
              e_weapon = w\<rparr>"
    by (simp add: classify_owned)
next
  assume "any_in [''requesting'', ''request'', ''req''] (strip (lower text))
      \<and> any_in [''vandal'', ''vandl'', ''vanda''] (strip (lower text))"
  then show "classify_text_to_event text ts =
        Some \<lparr>e_timestamp = ts, e_event_type = REQUESTING_WEAPON, e_player = ''Player'',
              e_weapon = ''vandal''\<rparr>"
    by (simp add: classify_requesting find_weapon_vandal)
next
  assume "\<not> any_in [''requesting'', ''request'', ''req''] (strip (lower text))
      \<and> \<not> any_in [''owned'', ''ownd'', ''own'', ''equipped'', ''omned''] (strip (lower text))"
  then show "classify_text_to_event text ts = None"
    by (simp add: classify_no_keyword)
next
  show "classify_text_to_event ''REQUESTING Vandal Ghost'' ts =
       Some \<lparr>e_timestamp = ts, e_event_type = REQUESTING_WEAPON, e_player = ''Player'',
             e_weapon = ''vandal''\<rparr>"
    by (rule classify_requesting_vandal_ghost)
qed

theorem weapon_alias_under_keyword_witness:
  "classify_text_to_event ''REQUESTING Vandl'' 12 =
     Some \<lparr>e_timestamp = 12, e_event_type = REQUESTING_WEAPON, e_player = ''Player'',
           e_weapon = ''vandal''\<rparr>
   \<and> classify_text_to_event ''Gost OWNED'' 12 =
     Some \<lparr>e_timestamp = 12, e_event_type = WEAPON_OWNED, e_player = ''Player'',
           e_weapon = ''ghost''\<rparr>
   \<and> classify_text_to_event ''Vandal'' 12 = None"
proof -
  have t1: "strip (lower ''REQUESTING Vandl'') = ''requesting vandl''"
    and t2: "strip (lower ''Gost OWNED'') = ''gost owned''"
    and t3: "strip (lower ''Vandal'') = ''vandal''"
    by (simp_all add: lower_def lower_char_def ascii_uppercase_def ascii_lowercase_def
        strip_def is_space_def)
  have a: "any_in [''requesting'', ''request'', ''req''] (strip (lower ''REQUESTING Vandl''))
      \<and> any_in [''vandal'', ''vandl'', ''vanda''] (strip (lower ''REQUESTING Vandl''))"
    unfolding t1 by (simp add: any_in_def)
  have b: "\<not> any_in [''requesting'', ''request'', ''req''] (strip (lower ''Gost OWNED''))
      \<and> any_in [''owned'', ''ownd'', ''own'', ''equipped'', ''omned''] (strip (lower ''Gost OWNED''))
      \<and> weapons =
          [(''vandal'', [''vandal'', ''vandl'', ''vanda'']),
           (''phantom'', [''phantom'', ''fantom'', ''phant'']),
           (''operator'', [''operator'', ''op'', ''opertr''])]
          @ (''ghost'', [''ghost'', ''gost'', ''ghst'']) #
          [(''sheriff'', [''sheriff'', ''sherif'']),
           (''classic'', [''classic'', ''clasic'']),
           (''spectre'', [''spectre'', ''specter'']),
           (''judge'', [''judge'', ''juge'']),
           (''odin'', [''odin'', ''odn'']),
           (''ares'', [''ares'', ''are''])]
      \<and> any_in [''ghost'', ''gost'', ''ghst''] (strip (lower ''Gost OWNED''))
      \<and> \<not> list_ex (\<lambda>(w', vs'). any_in vs' (strip (lower ''Gost OWNED'')))
          [(''vandal'', [''vandal'', ''vandl'', ''vanda'']),
           (''phantom'', [''phantom'', ''fantom'', ''phant'']),
           (''operator'', [''operator'', ''op'', ''opertr''])]"
    unfolding t2 by (simp add: any_in_def weapons_def)
  have c: "\<not> any_in [''requesting'', ''request'', ''req''] (strip (lower ''Vandal''))
      \<and> \<not> any_in [''owned'', ''ownd'', ''own'', ''equipped'', ''omned''] (strip (lower ''Vandal''))"
    unfolding t3 by (simp add: any_in_def)
  from a weapon_alias_under_keyword [of "''REQUESTING Vandl''"]
  have 1: "classify_text_to_event ''REQUESTING Vandl'' 12 =
     Some \<lparr>e_timestamp = 12, e_event_type = REQUESTING_WEAPON, e_player = ''Player'',
           e_weapon = ''vandal''\<rparr>" by blast
  from b weapon_alias_under_keyword [of "''Gost OWNED''" _ "''ghost''"]
  have 2: "classify_text_to_event ''Gost OWNED'' 12 =
     Some \<lparr>e_timestamp = 12, e_event_type = WEAPON_OWNED, e_player = ''Player'',
           e_weapon = ''ghost''\<rparr>" by blast
  from c weapon_alias_under_keyword [of "''Vandal''"]
  have 3: "classify_text_to_event ''Vandal'' 12 = None" by blast
  from 1 2 3 show ?thesis by simp
qed

text \<open>
  C8 as stated fails: the text \<open>vandal ghost\<close> has neither a request nor an ownership
  keyword, so it is classified as no event and no weapon is resolved.
\<close>

theorem vandal_ghost_alone_is_no_event:
  "classify_text_to_event ''vandal ghost'' 12 = None"
  by (simp add: classify_text_to_event_def lower_def lower_char_def ascii_uppercase_def
      ascii_lowercase_def strip_def is_space_def any_in_def weapons_def)

subsection \<open>One commentary per frame\<close>

lemma process_video_step_length:
  "length (all_commentary (process_video_step gen self frame)) \<le>
   Suc (length (all_commentary self))"
proof (cases "fr_events (process_frame frame) = []")
  case True
  then show ?thesis by (simp add: process_video_step_def Let_def)
next
  case False
  obtain c s' where
    g: "generate_commentary_for_events gen self (fr_events (process_frame frame))
          (vf_timestamp frame) = (c, s')"
    by (cases "generate_commentary_for_events gen self (fr_events (process_frame frame))
          (vf_timestamp frame)")
  have "all_commentary s' = all_commentary self"
    using g by (auto simp: generate_commentary_for_events_def
        split: list.splits option.splits prod.splits commentary_result.splits if_splits)
  then show ?thesis using False g
    by (simp add: process_video_step_def Let_def split: option.splits)
qed

text \<open>
  C10. The commentary for the events of a frame is the commentary for its first event
  alone: the result and the new state of \<open>generate_commentary_for_events\<close> do not
  depend on the events after the first; and one frame adds at most one commentary entry.
\<close>

theorem only_first_event_commented:
  "generate_commentary_for_events gen self (e # es) ts =
     generate_commentary_for_events gen self [e] ts
   \<and> length (all_commentary (process_video_step gen self frame)) \<le>
       Suc (length (all_commentary self))"
  by (simp add: generate_commentary_for_events_def process_video_step_length
      split: option.splits)

theorem only_first_event_commented_witness:
  "generate_commentary_for_events (\<lambda>c e. (Suc c, GenText (e_weapon e)))
     (init_generator 2 (Some (0::nat)))
     (\<lparr>e_timestamp = 12, e_event_type = REQUESTING_WEAPON, e_player = ''Player'',
       e_weapon = ''vandal''\<rparr> #
      [\<lparr>e_timestamp = 12, e_event_type = WEAPON_OWNED, e_player = ''Player'',
        e_weapon = ''ghost''\<rparr>]) 12 =
   generate_commentary_for_events (\<lambda>c e. (Suc c, GenText (e_weapon e)))
     (init_generator 2 (Some (0::nat)))
     [\<lparr>e_timestamp = 12, e_event_type = REQUESTING_WEAPON, e_player = ''Player'',
       e_weapon = ''vandal''\<rparr>] 12
   \<and> length (all_commentary (process_video_step (\<lambda>c e. (Suc c, GenText (e_weapon e)))
        (init_generator 2 (Some (0::nat)))
        \<lparr>vf_timestamp = 12, vf_perception = NoDetection\<rparr>)) \<le>
       Suc (length (all_commentary (init_generator 2 (Some (0::nat)))))"
  by (rule only_first_event_commented)

subsection \<open>Classification is a function of the detections\<close>

lemma extract_events_loop_eq:
  "extract_events_loop rs ts acc = acc @ List.map_filter
     (\<lambda>r. let text = strip (lower (case ocr_text r of None \<Rightarrow> [] | Some t \<Rightarrow> t))
          in if text = [] then None else classify_text_to_event text ts) rs"
proof (induction rs arbitrary: acc)
  case Nil
  then show ?case by simp
next
  case (Cons r rs)
  show ?case
    by (cases "classify_text_to_event
                 (strip (lower (case ocr_text r of None \<Rightarrow> [] | Some t \<Rightarrow> t))) ts")
       (simp_all add: Cons.IH Let_def)
qed

lemma set_map_filter_eq:
  "set (List.map_filter f xs) = {y. \<exists>x. x \<in> set xs \<and> f x = Some y}"
  by (induction xs) (auto split: option.splits)

lemma set_extract_events:
  "set (extract_events_from_ocr (Some rs) ts) =
     {e. \<exists>r. r \<in> set rs \<and>
        (let text = strip (lower (case ocr_text r of None \<Rightarrow> [] | Some t \<Rightarrow> t))
         in if text = [] then None else classify_text_to_event text ts) = Some e}"
  by (simp add: extract_events_from_ocr_def extract_events_loop_eq set_map_filter_eq)

lemma process_video_step_events:
  "map fr_events (frame_analysis (process_video_step gen self frame)) =
   map fr_events (frame_analysis self) @ [fr_events (process_frame frame)]"
proof (cases "fr_events (process_frame frame) = []")
  case True
  then show ?thesis by (simp add: process_video_step_def Let_def)
next
  case False
  obtain c s' where
    g: "generate_commentary_for_events gen self (fr_events (process_frame frame))
          (vf_timestamp frame) = (c, s')"
    by (cases "generate_commentary_for_events gen self (fr_events (process_frame frame))
          (vf_timestamp frame)")
  have fa: "frame_analysis s' = frame_analysis self"
    using g by (auto simp: generate_commentary_for_events_def
        split: list.splits option.splits prod.splits commentary_result.splits if_splits)
  show ?thesis using False g fa
    by (simp add: process_video_step_def Let_def split: option.splits)
qed

lemma process_video_events:
  "map fr_events (frame_analysis (process_video gen self frames)) =
   map fr_events (frame_analysis self) @ map (\<lambda>f. fr_events (process_frame f)) frames"
  unfolding process_video_def
  by (induction frames arbitrary: self) (simp_all add: process_video_step_events)

text \<open>
  C7. The events classified from OCR results depend only on the set of results: two
  result lists with the same elements give the same set of events. And within a run
  over any frames, whatever the commentator and the scheduling state, the events recorded
  for a frame are those of \<open>process_frame\<close> on that frame alone, so classifying the
  same detections again gives the same events.
\<close>

theorem classification_deterministic:
  "(set rs = set rs' \<longrightarrow>
      set (extract_events_from_ocr (Some rs) ts) = set (extract_events_from_ocr (Some rs') ts))
   \<and> map fr_events (frame_analysis (process_video gen self frames)) =
       map fr_events (frame_analysis self) @ map (\<lambda>f. fr_events (process_frame f)) frames"
  by (simp add: set_extract_events process_video_events)

theorem classification_deterministic_witness:
  "set (extract_events_from_ocr
         (Some [\<lparr>ocr_text = Some ''REQUESTING VANDAL'', ocr_bbox = [], yolo_class = ''a''\<rparr>,
                \<lparr>ocr_text = Some ''GHOST OWNED'', ocr_bbox = [], yolo_class = ''b''\<rparr>]) 12) =
   set (extract_events_from_ocr
         (Some [\<lparr>ocr_text = Some ''GHOST OWNED'', ocr_bbox = [], yolo_class = ''b''\<rparr>,
                \<lparr>ocr_text = Some ''REQUESTING VANDAL'', ocr_bbox = [], yolo_class = ''a''\<rparr>,
                \<lparr>ocr_text = Some ''GHOST OWNED'', ocr_bbox = [], yolo_class = ''b''\<rparr>]) 12)"
proof -
  have "set [\<lparr>ocr_text = Some ''REQUESTING VANDAL'', ocr_bbox = [], yolo_class = ''a''\<rparr>,
             \<lparr>ocr_text = Some ''GHOST OWNED'', ocr_bbox = [], yolo_class = ''b''\<rparr>] =
        set [\<lparr>ocr_text = Some ''GHOST OWNED'', ocr_bbox = [], yolo_class = ''b''\<rparr>,
             \<lparr>ocr_text = Some ''REQUESTING VANDAL'', ocr_bbox = [], yolo_class = ''a''\<rparr>,
             \<lparr>ocr_text = Some ''GHOST OWNED'', ocr_bbox = [], yolo_class = ''b''\<rparr>]"
    by auto
  then show ?thesis
    using classification_deterministic by blast
qed

subsection \<open>Voice synthesis failures\<close>






lemma synthesize_segments_timestamps:
  "map seg_timestamp (synthesize_segments ok name i segs) = map seg_timestamp segs"
  by (induction segs arbitrary: i) simp_all



subsection \<open>Order of the persisted segments\<close>

lemma extract_frames_loop_timestamps:
  "map fi_timestamp (extract_frames_loop fps fi name ks c processed) =
   map fi_timestamp processed @ map (\<lambda>k. real k / fps) (filter (\<lambda>k. int k mod fi = 0) ks)"
  by (induction ks arbitrary: c processed) simp_all

lemma sorted_frame_times:
  assumes "0 \<le> fps"
  shows "sorted (map (\<lambda>k. real k / fps) (filter P [0..<n]))"
proof -
  have "sorted_wrt (\<le>) (filter P [0..<n])"
    by (rule sorted_wrt_filter) simp
  then have "sorted_wrt (\<lambda>x y. real x / fps \<le> real y / fps) (filter P [0..<n])"
    by (rule sorted_wrt_mono_rel[rotated]) (simp add: assms divide_right_mono)
  then show ?thesis by (simp add: sorted_map)
qed

lemma extract_frames_sorted:
  "0 \<le> video_fps video \<Longrightarrow> extract_frames_for_analysis name video secs [] = Inr processed \<Longrightarrow>
   sorted (map fi_timestamp processed)"
  by (auto simp: extract_frames_for_analysis_def Let_def extract_frames_loop_timestamps
      sorted_frame_times split: if_splits)

lemma mock_detections_set:
  "set (map d_timestamp (mock_detections_loop i fs)) \<subseteq> set (map fi_timestamp fs)"
  by (induction fs arbitrary: i) auto

lemma mock_detections_sorted:
  "sorted (map fi_timestamp fs) \<Longrightarrow> sorted (map d_timestamp (mock_detections_loop i fs))"
proof (induction fs arbitrary: i)
  case Nil then show ?case by simp
next
  case (Cons f fs)
  then show ?case using mock_detections_set[of "Suc i" fs] by auto
qed

lemma yolo_detections_set:
  "set (map d_timestamp (yolo_detections_loop p fs)) \<subseteq> set (map fi_timestamp fs)"
  by (induction fs) (auto split: option.splits)

lemma yolo_detections_sorted:
  "sorted (map fi_timestamp fs) \<Longrightarrow> sorted (map d_timestamp (yolo_detections_loop p fs))"
proof (induction fs)
  case Nil then show ?case by simp
next
  case (Cons f fs)
  then show ?case using yolo_detections_set[of p fs] by (auto split: option.splits)
qed

lemma detections_sorted:
  "sorted (map fi_timestamp fs) \<Longrightarrow> sorted (map d_timestamp (run_buy_phase_detection yolo fs))"
  by (cases yolo) (simp_all add: run_buy_phase_detection_def generate_mock_detections_def
      mock_detections_sorted yolo_detections_sorted)

lemma bounded_sorted_snoc:
  "bounded_sorted segs t \<Longrightarrow> as_timestamp s = t \<Longrightarrow> bounded_sorted (segs @ [s]) t"
  by (auto simp: bounded_sorted_def sorted_append list_all_iff)

lemma bounded_sorted_mono: "bounded_sorted segs t \<Longrightarrow> t \<le> t' \<Longrightarrow> bounded_sorted segs t'"
  by (auto simp: bounded_sorted_def list_all_iff)

lemma backup_items_bounded:
  "bounded_sorted (adv_commentary_segments self) ts \<Longrightarrow>
   bounded_sorted (adv_commentary_segments (backup_items_loop rnd ts dets self)) ts"
proof (induction dets arbitrary: self)
  case Nil then show ?case by simp
next
  case (Cons det dets)
  show ?case
    by (simp add: Let_def) (intro conjI impI Cons.IH; simp add: bounded_sorted_snoc Cons.prems)
qed

lemma backup_sorted:
  "sorted (map d_timestamp ds) \<Longrightarrow>
   list_all (\<lambda>d. bounded_sorted (adv_commentary_segments self) (d_timestamp d)) ds \<Longrightarrow>
   sorted (map as_timestamp (adv_commentary_segments self)) \<Longrightarrow>
   sorted (map as_timestamp (adv_commentary_segments (generate_backup_commentary rnd ds self)))"
proof (induction ds arbitrary: self)
  case Nil then show ?case by simp
next
  case (Cons d ds)
  let ?self' = "backup_items_loop rnd (d_timestamp d) (d_detections d) self"
  have b: "bounded_sorted (adv_commentary_segments ?self') (d_timestamp d)"
    using Cons.prems(2) by (simp add: backup_items_bounded)
  have "list_all (\<lambda>d'. bounded_sorted (adv_commentary_segments ?self') (d_timestamp d')) ds"
    using Cons.prems(1) b by (auto simp: list_all_iff intro: bounded_sorted_mono)
  moreover have "sorted (map as_timestamp (adv_commentary_segments ?self'))"
    using b by (simp add: bounded_sorted_def)
  ultimately show ?case using Cons.IH[of ?self'] Cons.prems(1) by simp
qed

lemma existing_items_bounded:
  "bounded_sorted segs ts \<Longrightarrow> existing_items_loop gen ts dets (c, segs) = (r, c', segs') \<Longrightarrow>
   bounded_sorted segs' ts"
proof (induction dets arbitrary: c segs)
  case Nil
  then show ?case by simp
next
  case (Cons det dets)
  from Cons.prems show ?case
    by (auto simp: Let_def split: if_splits prod.splits adv_commentary_result.splits
        intro: Cons.IH bounded_sorted_snoc
        dest!: Cons.IH[rotated])
qed

lemma existing_items_no_import:
  assumes "\<forall>c e. snd (gen c e) \<noteq> AdvImportError"
  shows "fst (existing_items_loop gen ts dets (c, segs)) \<noteq> Some ImportError"
proof (induction dets arbitrary: c segs)
  case Nil
  then show ?case by simp
next
  case (Cons det dets)
  have n: "\<And>c e c'. gen c e \<noteq> (c', AdvImportError)"
    using assms by (metis snd_conv)
  show ?case
    by (auto simp: Let_def n Cons.IH split: prod.splits adv_commentary_result.splits)
qed

lemma use_existing_sorted:
  "sorted (map d_timestamp ds) \<Longrightarrow>
   list_all (\<lambda>d. bounded_sorted segs (d_timestamp d)) ds \<Longrightarrow>
   sorted (map as_timestamp segs) \<Longrightarrow>
   use_existing_commentary_system gen ds (c, segs) = (r, c', segs') \<Longrightarrow>
   sorted (map as_timestamp segs')"
proof (induction ds arbitrary: c segs)
  case Nil
  then show ?case by simp
next
  case (Cons d ds)
  obtain r1 c1 segs1 where
    e: "existing_items_loop gen (d_timestamp d) (d_detections d) (c, segs) = (r1, c1, segs1)"
    by (metis prod_cases3)
  have b: "bounded_sorted segs1 (d_timestamp d)"
    using Cons.prems(2) e by (auto intro: existing_items_bounded)
  then have s1: "sorted (map as_timestamp segs1)"
    by (simp add: bounded_sorted_def)
  show ?case
  proof (cases r1)
    case None
    with Cons.prems(4) e
    have r: "use_existing_commentary_system gen ds (c1, segs1) = (r, c', segs')" by simp
    have "list_all (\<lambda>d'. bounded_sorted segs1 (d_timestamp d')) ds"
      using Cons.prems(1) b by (auto simp: list_all_iff intro: bounded_sorted_mono)
    with Cons.IH[of segs1 c1] Cons.prems(1) s1 r show ?thesis by simp
  next
    case (Some err)
    with Cons.prems(4) e have "segs' = segs1" by simp
    with s1 show ?thesis by simp
  qed
qed

lemma use_existing_no_import:
  assumes "\<forall>c e. snd (gen c e) \<noteq> AdvImportError"
  shows "fst (use_existing_commentary_system gen ds (c, segs)) \<noteq> Some ImportError"
proof (induction ds arbitrary: c segs)
  case Nil
  then show ?case by simp
next
  case (Cons d ds)
  obtain r1 c1 segs1 where
    e: "existing_items_loop gen (d_timestamp d) (d_detections d) (c, segs) = (r1, c1, segs1)"
    by (metis prod_cases3)
  from existing_items_no_import[OF assms, of "d_timestamp d" "d_detections d" c segs] e
  have "r1 \<noteq> Some ImportError" by simp
  then show ?case using e Cons.IH[of c1 segs1] by (cases r1) simp_all
qed

lemma generate_ai_commentary_sorted:
  assumes "sorted (map d_timestamp ds)"
    and "adv_commentary_segments self = []"
    and "\<forall>c0 gen c e. existing = Some (c0, gen) \<longrightarrow> snd (gen c e) \<noteq> AdvImportError"
    and "generate_ai_commentary existing rnd ds self = (r, self')"
  shows "sorted (map as_timestamp (adv_commentary_segments self'))"
proof (cases "ds = []")
  case True
  with assms(2,4) show ?thesis by (simp add: generate_ai_commentary_def)
next
  case False
  have all: "list_all (\<lambda>d. bounded_sorted [] (d_timestamp d)) ds"
    by (simp add: bounded_sorted_def list_all_iff)
  show ?thesis
  proof (cases existing)
    case None
    with False assms(4)
    have "self' = generate_backup_commentary rnd ds self"
      by (simp add: generate_ai_commentary_def)
    then show ?thesis using backup_sorted[OF assms(1), of self rnd] all assms(2) by simp
  next
    case (Some p)
    obtain c0 gen where p: "p = (c0, gen)" by (cases p)
    obtain r1 c1 segs1 where
      u: "use_existing_commentary_system gen ds (c0, []) = (r1, c1, segs1)"
      by (metis prod_cases3)
    have s1: "sorted (map as_timestamp segs1)"
      using use_existing_sorted[OF assms(1) all _ u] by simp
    have "\<forall>c e. snd (gen c e) \<noteq> AdvImportError"
      using assms(3) Some p by blast
    from use_existing_no_import[OF this, of ds c0 "[]"] u
    have ni: "r1 \<noteq> Some ImportError" by simp
    have "adv_commentary_segments self' = segs1"
      using False Some p u ni assms(2,4)
      by (cases r1) (auto simp: generate_ai_commentary_def split: if_splits)
    with s1 show ?thesis by simp
  qed
qed

lemma adv_process_video_sorted:
  assumes "0 \<le> video_fps video"
    and "adv_processed_frames self = []"
    and "adv_commentary_segments self = []"
    and "\<forall>c0 gen c e. existing = Some (c0, gen) \<longrightarrow> snd (gen c e) \<noteq> AdvImportError"
    and "snd (adv_process_video existing yolo rnd name video self) = Some segs"
  shows "sorted (map as_timestamp segs)"
proof -
  from assms(5) obtain processed where
    x: "extract_frames_for_analysis name video 1.0 (adv_processed_frames self) = Inr processed"
    by (auto simp: adv_process_video_def split: if_splits sum.splits)
  obtain r self' where
    g: "generate_ai_commentary existing rnd (run_buy_phase_detection yolo processed)
          (self\<lparr>adv_processed_frames := processed\<rparr>) = (r, self')"
    by (cases "generate_ai_commentary existing rnd (run_buy_phase_detection yolo processed)
          (self\<lparr>adv_processed_frames := processed\<rparr>)")
  from assms(5) x g have segs: "segs = adv_commentary_segments self'"
    by (auto simp: adv_process_video_def split: if_splits option.splits)
  have "sorted (map fi_timestamp processed)"
    using extract_frames_sorted[OF assms(1)] x assms(2) by simp
  then have "sorted (map d_timestamp (run_buy_phase_detection yolo processed))"
    by (rule detections_sorted)
  from generate_ai_commentary_sorted[OF this _ assms(4) g] assms(3) segs
  show ?thesis by simp
qed

lemma generate_voice_sorted:
  "snd (generate_voice_commentary v ok name st) = Some segs \<Longrightarrow> sorted (map seg_timestamp segs)"
  by (auto simp: generate_voice_commentary_def Let_def synthesize_segments_timestamps split: if_splits)

text \<open>
  C5 (as the code has it). The segment list that \<open>generate_voice_commentary\<close> hands to
  the results file is sorted by timestamp, whatever the order in which the segments were
  produced. The advanced generator saves its segment list in the order of production,
  without sorting: the list saved by \<open>process_video\<close> is sorted by timestamp when the
  generator is fresh (no extracted frames and no segments yet), the frame rate of the
  video is not negative and no call of the commentator raises an import error.
\<close>

theorem persisted_segments_sorted:
  "(snd (generate_voice_commentary voice_enabled synth_ok audio_name st) = Some segs \<longrightarrow>
      sorted (map seg_timestamp segs))
   \<and> (0 \<le> video_fps video
      \<and> adv_processed_frames self = [] \<and> adv_commentary_segments self = []
      \<and> (\<forall>c0 gen c e. existing = Some (c0, gen) \<longrightarrow> snd (gen c e) \<noteq> AdvImportError)
      \<and> snd (adv_process_video existing yolo rnd frame_name video self) = Some asegs \<longrightarrow>
      sorted (map as_timestamp asegs))"
  using generate_voice_sorted adv_process_video_sorted by blast

theorem persisted_segments_sorted_witness:
  "snd (generate_voice_commentary True (\<lambda>i. True) (\<lambda>t. ''a.mp3'')
          (initial_state\<lparr>commentary_segments :=
             [general_segment (\<lambda>n. 0) 0 12, general_segment (\<lambda>n. 0) 1 0]\<rparr>)) =
     Some [(general_segment (\<lambda>n. 0) 1 0)\<lparr>seg_audio_file := AudioPath ''a.mp3''\<rparr>,
           (general_segment (\<lambda>n. 0) 0 12)\<lparr>seg_audio_file := AudioPath ''a.mp3''\<rparr>]
   \<and> sorted (map seg_timestamp
        [(general_segment (\<lambda>n. 0) 1 0)\<lparr>seg_audio_file := AudioPath ''a.mp3''\<rparr>,
           (general_segment (\<lambda>n. 0) 0 12)\<lparr>seg_audio_file := AudioPath ''a.mp3''\<rparr>])
   \<and> snd (adv_process_video
        (None :: (unit \<times> (unit \<Rightarrow> Event \<Rightarrow> unit \<times> adv_commentary_result)) option)
        None (\<lambda>n. 0) (\<lambda>i t. ''f.jpg'')
        \<lparr>video_opened = True, video_fps = 1, video_frame_count = 4, video_frames_read = 4\<rparr> adv_init) =
      Some [\<lparr>as_timestamp = 0, as_text = ''TenZ locks in the Vandal! Let's go!'',
            as_caster = ''Hype'', as_event_type = ''weapon_owned'',
            as_player = ''TenZ'', as_weapon = ''Vandal''\<rparr>,
           \<lparr>as_timestamp = 3, as_text = ''Player1 locks in the Ghost! Let's go!'',
            as_caster = ''Hype'', as_event_type = ''weapon_owned'',
            as_player = ''Player1'', as_weapon = ''Ghost''\<rparr>]
   \<and> sorted (map as_timestamp
        [\<lparr>as_timestamp = 0, as_text = ''TenZ locks in the Vandal! Let's go!'',
            as_caster = ''Hype'', as_event_type = ''weapon_owned'',
            as_player = ''TenZ'', as_weapon = ''Vandal''\<rparr>,
           \<lparr>as_timestamp = 3, as_text = ''Player1 locks in the Ghost! Let's go!'',
            as_caster = ''Hype'', as_event_type = ''weapon_owned'',
            as_player = ''Player1'', as_weapon = ''Ghost''\<rparr>])"
proof -
  have e1: "snd (generate_voice_commentary True (\<lambda>i. True) (\<lambda>t. ''a.mp3'')
          (initial_state\<lparr>commentary_segments :=
             [general_segment (\<lambda>n. 0) 0 12, general_segment (\<lambda>n. 0) 1 0]\<rparr>)) =
     Some [(general_segment (\<lambda>n. 0) 1 0)\<lparr>seg_audio_file := AudioPath ''a.mp3''\<rparr>,
           (general_segment (\<lambda>n. 0) 0 12)\<lparr>seg_audio_file := AudioPath ''a.mp3''\<rparr>]"
    by (simp add: generate_voice_commentary_def Let_def general_segment_def)
  have e2: "snd (adv_process_video
        (None :: (unit \<times> (unit \<Rightarrow> Event \<Rightarrow> unit \<times> adv_commentary_result)) option)
        None (\<lambda>n. 0) (\<lambda>i t. ''f.jpg'')
        \<lparr>video_opened = True, video_fps = 1, video_frame_count = 4, video_frames_read = 4\<rparr> adv_init) =
      Some [\<lparr>as_timestamp = 0, as_text = ''TenZ locks in the Vandal! Let's go!'',
            as_caster = ''Hype'', as_event_type = ''weapon_owned'',
            as_player = ''TenZ'', as_weapon = ''Vandal''\<rparr>,
           \<lparr>as_timestamp = 3, as_text = ''Player1 locks in the Ghost! Let's go!'',
            as_caster = ''Hype'', as_event_type = ''weapon_owned'',
            as_player = ''Player1'', as_weapon = ''Ghost''\<rparr>]"
    by code_simp
  have e3: "0 \<le> video_fps
       \<lparr>video_opened = True, video_fps = 1, video_frame_count = 4, video_frames_read = 4\<rparr>
     \<and> adv_processed_frames adv_init = [] \<and> adv_commentary_segments adv_init = []
     \<and> (\<forall>c0 gen c e.
          (None :: (unit \<times> (unit \<Rightarrow> Event \<Rightarrow> unit \<times> adv_commentary_result)) option) = Some (c0, gen) \<longrightarrow>
          snd (gen c e) \<noteq> AdvImportError)"
    by (simp add: adv_init_def)
  from e1 persisted_segments_sorted have s1: "sorted (map seg_timestamp
        [(general_segment (\<lambda>n. 0) 1 0)\<lparr>seg_audio_file := AudioPath ''a.mp3''\<rparr>,
           (general_segment (\<lambda>n. 0) 0 12)\<lparr>seg_audio_file := AudioPath ''a.mp3''\<rparr>])"
    by blast
  from e2 e3 persisted_segments_sorted
    [of _ _ _ _ _ "\<lparr>video_opened = True, video_fps = 1, video_frame_count = 4, video_frames_read = 4\<rparr>" adv_init
        "(None :: (unit \<times> (unit \<Rightarrow> Event \<Rightarrow> unit \<times> adv_commentary_result)) option)"]
  have s2: "sorted (map as_timestamp
        [\<lparr>as_timestamp = 0, as_text = ''TenZ locks in the Vandal! Let's go!'',
            as_caster = ''Hype'', as_event_type = ''weapon_owned'',
            as_player = ''TenZ'', as_weapon = ''Vandal''\<rparr>,
           \<lparr>as_timestamp = 3, as_text = ''Player1 locks in the Ghost! Let's go!'',
            as_caster = ''Hype'', as_event_type = ''weapon_owned'',
            as_player = ''Player1'', as_weapon = ''Ghost''\<rparr>])"
    by blast
  from e1 e2 s1 s2 show ?thesis by (intro conjI)
qed

text \<open>
  C5 as stated fails: the lists of the advanced generator are emptied by the constructor
  only, so a second \<open>process_video\<close> on the same generator and the same video (four
  frames at one frame per second, mock detections, backup commentary) saves the segments
  of both runs, with the timestamps 0, 3, 0, 3, 2.
\<close>

theorem second_run_persists_unsorted:
  "map_option (map as_timestamp)
     (snd (adv_process_video
        (None :: (unit \<times> (unit \<Rightarrow> Event \<Rightarrow> unit \<times> adv_commentary_result)) option)
        None id (curry (str_nat \<circ> fst))
        \<lparr>video_opened = True, video_fps = 1, video_frame_count = 4, video_frames_read = 4\<rparr>
        (fst (adv_process_video
           (None :: (unit \<times> (unit \<Rightarrow> Event \<Rightarrow> unit \<times> adv_commentary_result)) option)
           None id (curry (str_nat \<circ> fst))
           \<lparr>video_opened = True, video_fps = 1, video_frame_count = 4, video_frames_read = 4\<rparr>
           adv_init)))) = Some [0, 3, 0, 3, 2]
   \<and> \<not> sorted [0, 3, 0, 3, 2 :: real]"
  by code_simp

subsection \<open>Voice synthesis failures: the batch\<close>











subsection \<open>Phase and round tracking\<close>

lemma comment_on_events_keeps:
  "last_round_phase (comment_on_events rnd es st) = last_round_phase st \<and>
   last_score_info (comment_on_events rnd es st) = last_score_info st \<and>
   events_detected (comment_on_events rnd es st) = events_detected st"
  by (induction es arbitrary: st) (simp_all add: generate_event_commentary_def Let_def)

lemma analyze_frame_phase:
  "last_round_phase (analyze_frame rnd ts frame st) = detect_round_phase (timer_readings frame)"
  by (simp add: analyze_frame_def Let_def comment_on_events_keeps)


lemma round_phase_loop_default:
  "\<not> list_ex (\<lambda>(text, confidence). confidence > 0.6 \<and> has_countdown text) rs \<Longrightarrow>
   round_phase_loop rs = ''ACTION_PHASE''"
  by (induction rs rule: round_phase_loop.induct) auto

lemma phase_buy: "detect_round_phase (Some [(''BUY 0:25'', 0.9)]) = ''PREP_PHASE''"
  by (simp add: detect_round_phase_def is_digit_def any_in_def upper_def upper_char_def
      ascii_uppercase_def ascii_lowercase_def)

lemma phase_unknown: "detect_round_phase (Some [(''???'', 0.9)]) = ''ACTION_PHASE''"
  by (simp add: detect_round_phase_def is_digit_def)



text \<open>
  C2 (as the code has it). When no reading of the timer region has a confidence above
  0.6 and a countdown, in particular when the text is ambiguous or unrecognised, the
  phase detector returns the action phase, and so it does when the OCR library is
  missing; after every frame the stored phase is the detected phase, so such a frame
  sets the stored phase to the action phase whatever it was before.
\<close>

theorem unrecognized_timer_gives_action_phase:
  "(\<not> list_ex (\<lambda>(text, confidence). confidence > 0.6 \<and> has_countdown text) results \<longrightarrow>
      detect_round_phase (Some results) = ''ACTION_PHASE'' \<and>
      last_round_phase (analyze_frame rnd ts (frame\<lparr>timer_readings := Some results\<rparr>) st) =
        ''ACTION_PHASE'')
   \<and> detect_round_phase None = ''ACTION_PHASE''
   \<and> last_round_phase (analyze_frame rnd ts frame st) = detect_round_phase (timer_readings frame)"
  by (simp add: analyze_frame_phase detect_round_phase_def round_phase_loop_default)

theorem unrecognized_timer_gives_action_phase_witness:
  "detect_round_phase (Some [(''???'', 0.9)]) = ''ACTION_PHASE''
   \<and> last_round_phase
        (analyze_frame id 0.5
           (\<lparr>timer_readings = None, scoreboard_readings = None, kill_feed_readings = None,
             gray_mask_sum = 0, center_readings = None\<rparr>\<lparr>timer_readings := Some [(''???'', 0.9)]\<rparr>)
           (initial_state\<lparr>last_round_phase := ''PREP_PHASE''\<rparr>)) = ''ACTION_PHASE''"
proof -
  have "\<not> list_ex (\<lambda>(text, confidence). confidence > 0.6 \<and> has_countdown text)
          [(''???'', 0.9::real)]"
    by simp
  then show ?thesis
    using unrecognized_timer_gives_action_phase [of "[(''???'', 0.9)]"] by blast
qed

text \<open>
  C2 as stated fails: after a frame whose timer reads \<open>BUY 0:25\<close> the stored phase is
  the preparation phase, and a following frame whose timer text is unrecognised changes
  it to the action phase.
\<close>

theorem phase_changed_by_unrecognized_timer:
  "last_round_phase
     (analyze_frame id 0
        \<lparr>timer_readings = Some [(''BUY 0:25'', 0.9)], scoreboard_readings = None,
         kill_feed_readings = None, gray_mask_sum = 0, center_readings = None\<rparr>
        initial_state) = ''PREP_PHASE''
   \<and> last_round_phase
     (analyze_frame id 0.5
        \<lparr>timer_readings = Some [(''???'', 0.9)], scoreboard_readings = None,
         kill_feed_readings = None, gray_mask_sum = 0, center_readings = None\<rparr>
        (analyze_frame id 0
           \<lparr>timer_readings = Some [(''BUY 0:25'', 0.9)], scoreboard_readings = None,
            kill_feed_readings = None, gray_mask_sum = 0, center_readings = None\<rparr>
           initial_state)) = ''ACTION_PHASE''"
  by (simp add: analyze_frame_phase phase_buy phase_unknown)




subsection \<open>Gap filling\<close>

lemma add_general_loop_appends:
  "\<exists>new. commentary_segments (add_general_loop rnd d t st) = commentary_segments st @ new \<and>
     (\<forall>f \<in> set new. \<forall>r \<in> set (commentary_segments st). 5 \<le> \<bar>seg_timestamp f - seg_timestamp r\<bar>)"
proof (induction rnd d t st rule: add_general_loop.induct)
  case (1 rnd duration current_time st)
  show ?case
  proof (cases "real_of_int current_time < duration")
    case False
    then show ?thesis by (simp add: add_general_loop.simps[of rnd duration current_time st])
  next
    case True
    let ?st' = "(if \<not> has_nearby_commentary (commentary_segments st) current_time
              then st\<lparr>commentary_segments := commentary_segments st @
                         [general_segment rnd (draws st) current_time],
                       draws := Suc (draws st)\<rparr>
              else st)"
    from "1.IH"[OF True] obtain new where
      n: "commentary_segments (add_general_loop rnd duration (current_time + 12) ?st') =
          commentary_segments ?st' @ new"
      and far: "\<forall>f \<in> set new. \<forall>r \<in> set (commentary_segments ?st'). 5 \<le> \<bar>seg_timestamp f - seg_timestamp r\<bar>"
      by blast
    have eq: "add_general_loop rnd duration current_time st =
        add_general_loop rnd duration (current_time + 12) ?st'"
      using True by (subst add_general_loop.simps) simp
    show ?thesis
    proof (cases "has_nearby_commentary (commentary_segments st) current_time")
      case True
      then show ?thesis using n far eq by auto
    next
      case False
      then have ff: "\<forall>r \<in> set (commentary_segments st).
          5 \<le> \<bar>seg_timestamp (general_segment rnd (draws st) current_time) - seg_timestamp r\<bar>"
        by (auto simp: has_nearby_commentary_def list_ex_iff general_segment_def abs_minus_commute)
      have "commentary_segments (add_general_loop rnd duration current_time st) =
          commentary_segments st @ (general_segment rnd (draws st) current_time # new)"
        using n eq False by simp
      moreover have "\<forall>f \<in> set (general_segment rnd (draws st) current_time # new).
          \<forall>r \<in> set (commentary_segments st). 5 \<le> \<bar>seg_timestamp f - seg_timestamp r\<bar>"
        using far ff False by auto
      ultimately show ?thesis by blast
    qed
  qed
qed

lemma fill_24:
  assumes "commentary_segments st = []"
  shows "map seg_timestamp (commentary_segments (add_general_commentary rnd 24 st)) = [0, 12]"
proof -
  have s3: "\<And>s. add_general_loop rnd 24 24 s = s"
    by (subst add_general_loop.simps) simp
  have s2: "\<And>s x. commentary_segments s = [x] \<Longrightarrow> seg_timestamp x = 0 \<Longrightarrow>
      map seg_timestamp (commentary_segments (add_general_loop rnd 24 12 s)) = [0, 12]"
    by (subst add_general_loop.simps)
       (simp add: s3 has_nearby_commentary_def general_segment_def)
  have s1: "map seg_timestamp (commentary_segments (add_general_loop rnd 24 0 st)) = [0, 12]"
    by (subst add_general_loop.simps)
       (simp add: assms s2 has_nearby_commentary_def general_segment_def)
  then show ?thesis by (simp add: add_general_commentary_def)
qed

text \<open>
  C4 (as the code has it). The candidate times of the gap filling are 0, 12, 24, ...
  below the duration: for a span of 24 seconds without segments it adds exactly two
  filler segments, at 0 and at 12. For every duration and state the segments present
  before are kept in place, and every filler segment added lies at least 5 seconds from
  each of them.
\<close>

theorem gap_fill_candidates:
  "(commentary_segments st = [] \<longrightarrow>
      map seg_timestamp (commentary_segments (add_general_commentary rnd 24 st)) = [0, 12])
   \<and> take (length (commentary_segments st))
        (commentary_segments (add_general_commentary rnd duration st)) = commentary_segments st
   \<and> (\<forall>f \<in> set (drop (length (commentary_segments st))
                    (commentary_segments (add_general_commentary rnd duration st))).
        \<forall>r \<in> set (commentary_segments st). 5 \<le> \<bar>seg_timestamp f - seg_timestamp r\<bar>)"
proof -
  obtain new where
    n: "commentary_segments (add_general_commentary rnd duration st) = commentary_segments st @ new"
    and far: "\<forall>f \<in> set new. \<forall>r \<in> set (commentary_segments st). 5 \<le> \<bar>seg_timestamp f - seg_timestamp r\<bar>"
    using add_general_loop_appends[of rnd duration 0 st] unfolding add_general_commentary_def by blast
  show ?thesis using n far fill_24 by simp
qed

theorem gap_fill_candidates_witness:
  "map seg_timestamp (commentary_segments (add_general_commentary id 24
      (initial_state\<lparr>commentary_segments := []\<rparr>))) = [0, 12]
   \<and> 5 \<le> \<bar>seg_timestamp (general_segment id 0 12) -
            seg_timestamp (general_segment id 7 3)\<bar>"
proof -
  let ?r = "general_segment id 7 3"
  let ?st = "initial_state\<lparr>commentary_segments := [?r]\<rparr>"
  have rt: "seg_timestamp ?r = 3" by (simp add: general_segment_def)
  have s3: "\<And>s. add_general_loop id 24 24 s = s"
    by (subst add_general_loop.simps) simp
  have s2: "commentary_segments (add_general_loop id 24 12 ?st) = [?r, general_segment id 0 12]"
    by (subst add_general_loop.simps)
       (simp add: s3 has_nearby_commentary_def general_segment_def initial_state_def)
  have s1: "commentary_segments (add_general_commentary id 24 ?st) = [?r, general_segment id 0 12]"
    unfolding add_general_commentary_def
    by (subst add_general_loop.simps) (simp add: s2 has_nearby_commentary_def rt)
  have f: "general_segment id 0 12 \<in> set (drop (length (commentary_segments ?st))
             (commentary_segments (add_general_commentary id 24 ?st)))"
    by (simp add: s1)
  have r: "?r \<in> set (commentary_segments ?st)" by simp
  have e: "commentary_segments (initial_state\<lparr>commentary_segments := []\<rparr>) = []" by simp
  from gap_fill_candidates[of "initial_state\<lparr>commentary_segments := []\<rparr>" id] e
  have 1: "map seg_timestamp (commentary_segments (add_general_commentary id 24
      (initial_state\<lparr>commentary_segments := []\<rparr>))) = [0, 12]" by blast
  from gap_fill_candidates[of ?st id 24] f r
  have 2: "5 \<le> \<bar>seg_timestamp (general_segment id 0 12) - seg_timestamp ?r\<bar>" by blast
  from 1 2 show ?thesis by simp
qed

text \<open>
  C4 as stated fails: the two filler segments of a 24 second span without events are at
  0 and 12, not at 12 and 24.
\<close>

theorem gap_fill_not_at_12_and_24:
  "map seg_timestamp (commentary_segments (add_general_commentary id 24 initial_state)) = [0, 12]
   \<and> map seg_timestamp (commentary_segments (add_general_commentary id 24 initial_state)) \<noteq> [12, 24]"
proof -
  have "commentary_segments initial_state = []" by (simp add: initial_state_def)
  from fill_24[OF this] show ?thesis by simp
qed

subsection \<open>Throttling of the commentary\<close>













end
